theory Spec2Isabelle
  imports Main "HOL-Library.Word"
begin

unbundle bit_operations_syntax

section \<open>The EV3 UART sensor line discipline (drivers/legoev3/legoev3_uart.c)\<close>

text \<open>
  A shallow embedding of the protocol engine of \<^verbatim>\<open>legoev3_uart.c\<close>: the header codec,
  the receive callback with its sync scanner, framer and message handlers, the keep-alive
  timer callback, the two delayed work items and the \<^verbatim>\<open>valueN\<close> attribute reader.
  C's \<^verbatim>\<open>u8\<close> is \<open>8 word\<close>, \<^verbatim>\<open>unsigned\<close>, \<^verbatim>\<open>speed_t\<close> and the 32-bit
  \<^verbatim>\<open>unsigned long\<close> of the flag word are \<open>32 word\<close>; buffer positions and message
  sizes, which stay far below any wrap-around, are \<open>nat\<close>.  Every \<^verbatim>\<open>goto err_invalid_state\<close>
  is the \<open>Inl\<close> branch of a sum.
\<close>

type_synonym u8 = "8 word"
type_synonym u32 = "32 word"

subsection \<open>Constants of the driver\<close>

definition LEGOEV3_UART_BUFFER_SIZE :: nat where
  "LEGOEV3_UART_BUFFER_SIZE = 256"

definition LEGOEV3_UART_SENSOR_DATA_SIZE :: nat where
  "LEGOEV3_UART_SENSOR_DATA_SIZE = 32"

definition LEGOEV3_UART_MSG_TYPE_MASK :: u8 where
  "LEGOEV3_UART_MSG_TYPE_MASK = 0xC0"

definition LEGOEV3_UART_CMD_SIZE :: "u8 \<Rightarrow> nat" where
  "LEGOEV3_UART_CMD_SIZE byte = 2 ^ unat (drop_bit 3 byte AND 0x7)"

definition LEGOEV3_UART_MSG_CMD_MASK :: u8 where
  "LEGOEV3_UART_MSG_CMD_MASK = 0x07"

definition LEGOEV3_UART_MAX_DATA_ERR :: u32 where
  "LEGOEV3_UART_MAX_DATA_ERR = 6"

definition LEGOEV3_UART_TYPE_UNKNOWN :: u8 where
  "LEGOEV3_UART_TYPE_UNKNOWN = 125"

definition LEGOEV3_UART_SPEED_MIN :: u32 where
  "LEGOEV3_UART_SPEED_MIN = 2400"

definition LEGOEV3_UART_SPEED_MAX :: u32 where
  "LEGOEV3_UART_SPEED_MAX = 460800"

text \<open>enum legoev3_uart_msg_type\<close>

definition LEGOEV3_UART_MSG_TYPE_SYS :: u8 where "LEGOEV3_UART_MSG_TYPE_SYS = 0x00"
definition LEGOEV3_UART_MSG_TYPE_CMD :: u8 where "LEGOEV3_UART_MSG_TYPE_CMD = 0x40"
definition LEGOEV3_UART_MSG_TYPE_INFO :: u8 where "LEGOEV3_UART_MSG_TYPE_INFO = 0x80"
definition LEGOEV3_UART_MSG_TYPE_DATA :: u8 where "LEGOEV3_UART_MSG_TYPE_DATA = 0xC0"

text \<open>enum legoev3_uart_sys\<close>

definition LEGOEV3_UART_SYS_SYNC :: u8 where "LEGOEV3_UART_SYS_SYNC = 0x0"
definition LEGOEV3_UART_SYS_NACK :: u8 where "LEGOEV3_UART_SYS_NACK = 0x2"
definition LEGOEV3_UART_SYS_ACK :: u8 where "LEGOEV3_UART_SYS_ACK = 0x4"
definition LEGOEV3_UART_SYS_ESC :: u8 where "LEGOEV3_UART_SYS_ESC = 0x6"

text \<open>enum legoev3_uart_cmd\<close>

definition LEGOEV3_UART_CMD_TYPE :: u8 where "LEGOEV3_UART_CMD_TYPE = 0x0"
definition LEGOEV3_UART_CMD_MODES :: u8 where "LEGOEV3_UART_CMD_MODES = 0x1"
definition LEGOEV3_UART_CMD_SPEED :: u8 where "LEGOEV3_UART_CMD_SPEED = 0x2"
definition LEGOEV3_UART_CMD_SELECT :: u8 where "LEGOEV3_UART_CMD_SELECT = 0x3"
definition LEGOEV3_UART_CMD_WRITE :: u8 where "LEGOEV3_UART_CMD_WRITE = 0x4"

text \<open>enum legoev3_uart_info\<close>

definition LEGOEV3_UART_INFO_NAME :: u8 where "LEGOEV3_UART_INFO_NAME = 0x00"
definition LEGOEV3_UART_INFO_RAW :: u8 where "LEGOEV3_UART_INFO_RAW = 0x01"
definition LEGOEV3_UART_INFO_PCT :: u8 where "LEGOEV3_UART_INFO_PCT = 0x02"
definition LEGOEV3_UART_INFO_SI :: u8 where "LEGOEV3_UART_INFO_SI = 0x03"
definition LEGOEV3_UART_INFO_UNITS :: u8 where "LEGOEV3_UART_INFO_UNITS = 0x04"
definition LEGOEV3_UART_INFO_FORMAT :: u8 where "LEGOEV3_UART_INFO_FORMAT = 0x80"

text \<open>The bit numbers and masks of \<^verbatim>\<open>info_flags\<close>.\<close>

definition LEGOEV3_UART_INFO_BIT_CMD_TYPE :: nat where "LEGOEV3_UART_INFO_BIT_CMD_TYPE = 0"
definition LEGOEV3_UART_INFO_BIT_CMD_MODES :: nat where "LEGOEV3_UART_INFO_BIT_CMD_MODES = 1"
definition LEGOEV3_UART_INFO_BIT_CMD_SPEED :: nat where "LEGOEV3_UART_INFO_BIT_CMD_SPEED = 2"
definition LEGOEV3_UART_INFO_BIT_INFO_NAME :: nat where "LEGOEV3_UART_INFO_BIT_INFO_NAME = 3"
definition LEGOEV3_UART_INFO_BIT_INFO_RAW :: nat where "LEGOEV3_UART_INFO_BIT_INFO_RAW = 4"
definition LEGOEV3_UART_INFO_BIT_INFO_PCT :: nat where "LEGOEV3_UART_INFO_BIT_INFO_PCT = 5"
definition LEGOEV3_UART_INFO_BIT_INFO_SI :: nat where "LEGOEV3_UART_INFO_BIT_INFO_SI = 6"
definition LEGOEV3_UART_INFO_BIT_INFO_UNITS :: nat where "LEGOEV3_UART_INFO_BIT_INFO_UNITS = 7"
definition LEGOEV3_UART_INFO_BIT_INFO_FORMAT :: nat where "LEGOEV3_UART_INFO_BIT_INFO_FORMAT = 8"

definition BIT :: "nat \<Rightarrow> u32" where
  "BIT n = push_bit n 1"

definition LEGOEV3_UART_INFO_FLAG_CMD_TYPE :: u32 where
  "LEGOEV3_UART_INFO_FLAG_CMD_TYPE = BIT LEGOEV3_UART_INFO_BIT_CMD_TYPE"
definition LEGOEV3_UART_INFO_FLAG_CMD_MODES :: u32 where
  "LEGOEV3_UART_INFO_FLAG_CMD_MODES = BIT LEGOEV3_UART_INFO_BIT_CMD_MODES"
definition LEGOEV3_UART_INFO_FLAG_CMD_SPEED :: u32 where
  "LEGOEV3_UART_INFO_FLAG_CMD_SPEED = BIT LEGOEV3_UART_INFO_BIT_CMD_SPEED"
definition LEGOEV3_UART_INFO_FLAG_INFO_NAME :: u32 where
  "LEGOEV3_UART_INFO_FLAG_INFO_NAME = BIT LEGOEV3_UART_INFO_BIT_INFO_NAME"
definition LEGOEV3_UART_INFO_FLAG_INFO_RAW :: u32 where
  "LEGOEV3_UART_INFO_FLAG_INFO_RAW = BIT LEGOEV3_UART_INFO_BIT_INFO_RAW"
definition LEGOEV3_UART_INFO_FLAG_INFO_PCT :: u32 where
  "LEGOEV3_UART_INFO_FLAG_INFO_PCT = BIT LEGOEV3_UART_INFO_BIT_INFO_PCT"
definition LEGOEV3_UART_INFO_FLAG_INFO_SI :: u32 where
  "LEGOEV3_UART_INFO_FLAG_INFO_SI = BIT LEGOEV3_UART_INFO_BIT_INFO_SI"
definition LEGOEV3_UART_INFO_FLAG_INFO_UNITS :: u32 where
  "LEGOEV3_UART_INFO_FLAG_INFO_UNITS = BIT LEGOEV3_UART_INFO_BIT_INFO_UNITS"
definition LEGOEV3_UART_INFO_FLAG_INFO_FORMAT :: u32 where
  "LEGOEV3_UART_INFO_FLAG_INFO_FORMAT = BIT LEGOEV3_UART_INFO_BIT_INFO_FORMAT"

definition LEGOEV3_UART_INFO_FLAG_ALL_INFO :: u32 where
  "LEGOEV3_UART_INFO_FLAG_ALL_INFO =
     LEGOEV3_UART_INFO_FLAG_INFO_NAME OR LEGOEV3_UART_INFO_FLAG_INFO_RAW
     OR LEGOEV3_UART_INFO_FLAG_INFO_PCT OR LEGOEV3_UART_INFO_FLAG_INFO_SI
     OR LEGOEV3_UART_INFO_FLAG_INFO_UNITS OR LEGOEV3_UART_INFO_FLAG_INFO_FORMAT"

definition LEGOEV3_UART_INFO_FLAG_REQUIRED :: u32 where
  "LEGOEV3_UART_INFO_FLAG_REQUIRED =
     LEGOEV3_UART_INFO_FLAG_CMD_TYPE OR LEGOEV3_UART_INFO_FLAG_CMD_MODES
     OR LEGOEV3_UART_INFO_FLAG_INFO_NAME OR LEGOEV3_UART_INFO_FLAG_INFO_FORMAT"

text \<open>
  \<^verbatim>\<open>test_and_set_bit(nr, &flags)\<close>: the old value of the bit, and the word with the bit set.
\<close>

definition test_and_set_bit :: "nat \<Rightarrow> u32 \<Rightarrow> bool \<times> u32" where
  "test_and_set_bit nr flags = (bit flags nr, flags OR BIT nr)"

subsection \<open>What the header linux/legoev3/legoev3_uart.h declares\<close>

text \<open>
  Modelled from the spec: \<^verbatim>\<open>LEGOEV3_UART_MODE_MAX\<close>, declared in the header
  \<^verbatim>\<open>linux/legoev3/legoev3_uart.h\<close>, which is not among the sources.  The spec gives the
  mode table 8 slots and mode counts in [1, 8]; the table is declared with
  \<^verbatim>\<open>LEGOEV3_UART_MODE_MAX + 1\<close> entries.
\<close>

definition LEGOEV3_UART_MODE_MAX :: nat where
  "LEGOEV3_UART_MODE_MAX = 7"

text \<open>
  Modelled from the spec: \<^verbatim>\<open>LEGOEV3_UART_NAME_SIZE\<close> of the same header; the spec bounds a
  mode name by 11 bytes.
\<close>

definition LEGOEV3_UART_NAME_SIZE :: nat where
  "LEGOEV3_UART_NAME_SIZE = 11"

text \<open>
  Modelled from the spec: the data formats \<^verbatim>\<open>LEGOEV3_UART_DATA_8\<close>, \<^verbatim>\<open>_16\<close>, \<^verbatim>\<open>_32\<close> and
  \<^verbatim>\<open>_FLOAT\<close> of the same header.  The spec lists the formats as S8, S16, S32, FLOAT and
  its handshake scenario sends format byte 0 for S8; the others follow in that order.
\<close>

definition LEGOEV3_UART_DATA_8 :: u8 where "LEGOEV3_UART_DATA_8 = 0"
definition LEGOEV3_UART_DATA_16 :: u8 where "LEGOEV3_UART_DATA_16 = 1"
definition LEGOEV3_UART_DATA_32 :: u8 where "LEGOEV3_UART_DATA_32 = 2"
definition LEGOEV3_UART_DATA_FLOAT :: u8 where "LEGOEV3_UART_DATA_FLOAT = 3"

text \<open>
  The two constants of that header on which the spec is silent are parameters of the model:
  the largest sensor type the sync scanner accepts and the length of a units string.
\<close>

record legoev3_uart_h =
  LEGOEV3_UART_TYPE_MAX :: u8
  LEGOEV3_UART_UNITS_SIZE :: nat

text \<open>
  Modelled from the spec: \<^verbatim>\<open>struct legoev3_uart_mode_info\<close> of the same header, with the
  fields the spec lists for ModeInfo and the driver reads and writes.  The six scaling
  limits hold the raw bits of a float; \<open>name\<close> and \<open>units\<close> are C strings, kept here
  without the terminating NUL; \<open>raw_data\<close> has \<^verbatim>\<open>LEGOEV3_UART_SENSOR_DATA_SIZE\<close> bytes.
\<close>

record legoev3_uart_mode_info =
  name :: "u8 list"
  raw_min :: u32
  raw_max :: u32
  pct_min :: u32
  pct_max :: u32
  si_min :: u32
  si_max :: u32
  units :: "u8 list"
  data_sets :: u8
  format :: u8
  figures :: u8
  decimals :: u8
  raw_data :: "u8 list"

text \<open>A zeroed slot, as \<^verbatim>\<open>kzalloc\<close> leaves it.\<close>

definition zero_mode_info :: legoev3_uart_mode_info where
  "zero_mode_info =
     \<lparr>name = [], raw_min = 0, raw_max = 0, pct_min = 0, pct_max = 0, si_min = 0, si_max = 0,
      units = [], data_sets = 0, format = 0, figures = 0, decimals = 0,
      raw_data = replicate LEGOEV3_UART_SENSOR_DATA_SIZE 0\<rparr>"

definition legoev3_uart_default_mode_info :: legoev3_uart_mode_info where
  "legoev3_uart_default_mode_info =
     zero_mode_info\<lparr>raw_max := 0x447fc000, pct_max := 0x42c80000, si_max := 0x3f800000,
                    figures := 4\<rparr>"

subsection \<open>The port data\<close>

text \<open>
  \<^verbatim>\<open>struct legoev3_uart_port_data\<close>.  The two delayed work items, the timer and the tasklet
  are kept as flags: a work item or the tasklet is pending, the timer is armed.
  \<open>tty_baud_rate\<close> stands for the speed of the tty's termios.  The \<^verbatim>\<open>sensor\<close> pointer is
  the flag \<open>sensor\<close>: a sensor device is registered.

  The last field, \<open>overrun\<close>, is not a member of the struct.  It counts the bytes that the
  \<^verbatim>\<open>memcpy\<close> of the DATA arm has written beyond the end of a \<^verbatim>\<open>raw_data\<close> field.  In the
  program those bytes go over whatever follows the field in memory: the next slot of the
  mode table, and after the last slot the members \<^verbatim>\<open>type\<close>, \<^verbatim>\<open>num_modes\<close>,
  \<^verbatim>\<open>num_view_modes\<close>, \<^verbatim>\<open>mode\<close> and those behind them.  Which members they reach depends
  on the layout of \<^verbatim>\<open>struct legoev3_uart_mode_info\<close>, which the record cannot follow:
  after an overrun the members that the bytes reach may hold, in the program, other values
  than the record shows.  Nothing resets the count, so the record describes the memory of
  the port as long as \<open>overrun\<close> is 0, and what is to hold of the program in every state is
  stated for the runs that end with \<open>overrun = 0\<close>.
\<close>

record legoev3_uart_port_data =
  tty_baud_rate :: u32
  sensor :: bool
  send_ack_work :: bool
  change_bitrate_work :: bool
  keep_alive_timer :: bool
  keep_alive_tasklet :: bool
  mode_info :: "legoev3_uart_mode_info list"
  type :: u8
  num_modes :: u8
  num_view_modes :: u8
  mode :: u8
  new_baud_rate :: u32
  info_flags :: u32
  buffer :: "u8 list"
  write_ptr :: nat
  last_err :: string
  num_data_err :: u32
  synced :: bool
  info_done :: bool
  data_rec :: bool
  overrun :: nat

subsection \<open>Codec\<close>

definition legoev3_uart_msg_size :: "u8 \<Rightarrow> nat" where
  "legoev3_uart_msg_size header =
     (if header AND LEGOEV3_UART_MSG_TYPE_MASK = 0 then 1
      else LEGOEV3_UART_CMD_SIZE header + 2
           + (if header AND LEGOEV3_UART_MSG_TYPE_MASK = LEGOEV3_UART_MSG_TYPE_INFO
              then 1 else 0))"

text \<open>
  \<^verbatim>\<open>__fls\<close>: the number of the most significant set bit of a nonzero word.
\<close>

fun fls :: "nat \<Rightarrow> nat" where
  "fls n = (if n < 2 then 0 else Suc (fls (n div 2)))"

declare fls.simps [simp del]

text \<open>
  \<^verbatim>\<open>find_last_bit(addr, size)\<close> is the kernel's bitmap routine (lib/find_last_bit.c, not
  among the sources): it searches the first \<^verbatim>\<open>size\<close> bits of the bitmap at \<^verbatim>\<open>addr\<close>
  and returns the number of the last set bit among them, or \<^verbatim>\<open>size\<close> when none of them
  is set.  The model covers a bitmap of one word, searched over at most the width of the
  word, which is how the driver calls it; \<open>addr\<close> is the value of that word.
\<close>

definition find_last_bit :: "nat \<Rightarrow> nat \<Rightarrow> nat" where
  "find_last_bit addr nbits =
     (let tmp = addr mod 2 ^ nbits in if tmp \<noteq> 0 then fls tmp else nbits)"

text \<open>
  \<^verbatim>\<open>legoev3_uart_set_msg_hdr\<close>.  The driver passes \<^verbatim>\<open>sizeof(unsigned long)\<close> as the number
  of bits to search; that number is the first argument here (4 on the 32-bit ARM of the
  EV3, 8 on a 64-bit machine).
\<close>

definition legoev3_uart_set_msg_hdr :: "nat \<Rightarrow> u8 \<Rightarrow> nat \<Rightarrow> u8 \<Rightarrow> u8" where
  "legoev3_uart_set_msg_hdr sizeof_unsigned_long msg_type sz cmd =
     (let size_code = push_bit 3 (of_nat (find_last_bit sz sizeof_unsigned_long) AND 0x7) :: u8
      in (msg_type AND LEGOEV3_UART_MSG_TYPE_MASK) OR size_code
         OR (cmd AND LEGOEV3_UART_MSG_CMD_MASK))"

text \<open>
  The decoding the receive path applies to a header byte: the message type bits, the
  payload size and the command bits.
\<close>

definition decode_header :: "u8 \<Rightarrow> u8 \<times> nat \<times> u8" where
  "decode_header header =
     (header AND LEGOEV3_UART_MSG_TYPE_MASK, LEGOEV3_UART_CMD_SIZE header,
      header AND LEGOEV3_UART_MSG_CMD_MASK)"

subsection \<open>Helpers for the C idioms of the receive path\<close>

text \<open>A little-endian 32-bit load from the buffer, \<^verbatim>\<open>*(unsigned *)(buffer + off)\<close>.\<close>

definition load_le32 :: "u8 list \<Rightarrow> nat \<Rightarrow> u32" where
  "load_le32 buf off =
     ucast (buf ! off) OR push_bit 8 (ucast (buf ! (off + 1)))
     OR push_bit 16 (ucast (buf ! (off + 2))) OR push_bit 24 (ucast (buf ! (off + 3)))"

text \<open>The C string that starts a byte sequence, and \<^verbatim>\<open>strlen\<close>.\<close>

definition c_string :: "u8 list \<Rightarrow> u8 list" where
  "c_string bs = takeWhile (\<lambda>b. b \<noteq> 0) bs"

definition strlen :: "u8 list \<Rightarrow> nat" where
  "strlen bs = length (c_string bs)"

text \<open>
  \<^verbatim>\<open>memcpy(dst, src, n)\<close> into a field \<open>dst\<close> of the mode table: the field afterwards, and
  the number of bytes the call writes beyond the end of the field.  The field keeps its
  length; of the \<open>n\<close> bytes only those that fit are stored in it.
\<close>

definition memcpy :: "u8 list \<Rightarrow> u8 list \<Rightarrow> nat \<Rightarrow> u8 list" where
  "memcpy dst src n = take (min n (length dst)) src @ drop n dst"

definition memcpy_overrun :: "u8 list \<Rightarrow> nat \<Rightarrow> nat" where
  "memcpy_overrun dst n = n - length dst"

text \<open>An update of one slot of the mode table, \<^verbatim>\<open>port->mode_info[m].field = ...\<close>.\<close>

definition upd_mode_info ::
  "u8 \<Rightarrow> (legoev3_uart_mode_info \<Rightarrow> legoev3_uart_mode_info) \<Rightarrow>
   legoev3_uart_port_data \<Rightarrow> legoev3_uart_port_data" where
  "upd_mode_info m f p = p\<lparr>mode_info := (mode_info p)[unat m := f (mode_info p ! unat m)]\<rparr>"

text \<open>The checksum loop: 0xFF xor the first \<open>n\<close> bytes of the buffer.\<close>

definition checksum :: "u8 list \<Rightarrow> nat \<Rightarrow> u8" where
  "checksum buf n = fold (\<lambda>b c. c XOR b) (take n buf) 0xFF"

text \<open>
  The loop at \<^verbatim>\<open>err_split_sync_checksum\<close> that moves the leftover bytes to the start of the
  buffer; it returns the buffer and the final \<open>i\<close>, the new \<^verbatim>\<open>write_ptr\<close>.
\<close>

function shift_buffer :: "nat \<Rightarrow> nat \<Rightarrow> u8 list \<Rightarrow> nat \<Rightarrow> u8 list \<times> nat" where
  "shift_buffer msg_size wp buf i =
     (if i + msg_size < wp then shift_buffer msg_size wp (buf[i := buf ! (i + msg_size)]) (Suc i)
      else (buf, i))"
  by pat_completeness auto
termination
  by (relation "measure (\<lambda>(msg_size, wp, buf, i). wp - (i + msg_size))") auto

declare shift_buffer.simps [simp del]

definition drop_message :: "nat \<Rightarrow> legoev3_uart_port_data \<Rightarrow> legoev3_uart_port_data" where
  "drop_message msg_size p =
     (case shift_buffer msg_size (write_ptr p) (buffer p) 0 of
        (buf, i) \<Rightarrow> p\<lparr>buffer := buf, write_ptr := i\<rparr>)"

text \<open>The label \<^verbatim>\<open>err_invalid_state\<close>.\<close>

definition err_invalid_state :: "legoev3_uart_port_data \<Rightarrow> legoev3_uart_port_data" where
  "err_invalid_state p =
     p\<lparr>synced := False, new_baud_rate := LEGOEV3_UART_SPEED_MIN, change_bitrate_work := True\<rparr>"

text \<open>
  The label \<^verbatim>\<open>err_bad_data_msg_checksum\<close>: the threshold test, then the removal of the
  message.  \<open>Inl\<close> is the jump to \<^verbatim>\<open>err_invalid_state\<close>.
\<close>

definition err_bad_data_msg_checksum ::
  "nat \<Rightarrow> legoev3_uart_port_data \<Rightarrow> legoev3_uart_port_data + legoev3_uart_port_data" where
  "err_bad_data_msg_checksum msg_size p =
     (if info_done p \<and> num_data_err p > LEGOEV3_UART_MAX_DATA_ERR then Inl p
      else Inr (drop_message msg_size p))"

subsection \<open>The message handlers of the receive callback\<close>

text \<open>
  Each handler is one arm of the \<^verbatim>\<open>switch (msg_type)\<close> of \<^verbatim>\<open>legoev3_uart_receive_buf\<close>.
  \<open>Inl\<close> is \<^verbatim>\<open>goto err_invalid_state\<close> with the port as it is at the jump, \<open>Inr\<close> is the
  \<^verbatim>\<open>break\<close> out of the switch.  The SYS arm also returns \<^verbatim>\<open>msg_size\<close>, the only local
  variable an arm assigns; it is a \<^verbatim>\<open>u8\<close>, so its increment is taken modulo 256.
\<close>

definition sys_msg ::
  "u8 \<Rightarrow> u8 \<Rightarrow> nat \<Rightarrow> legoev3_uart_port_data \<Rightarrow>
   legoev3_uart_port_data + nat \<times> legoev3_uart_port_data" where
  "sys_msg cmd cmd2 msg_size p =
     (if cmd = LEGOEV3_UART_SYS_SYNC then
        (if msg_size > 1 \<and> cmd XOR cmd2 = 0xFF then Inr ((msg_size + 1) mod 256, p)
         else Inr (msg_size, p))
      else if cmd = LEGOEV3_UART_SYS_ACK then
        (if num_modes p = 0 then
           Inl (p\<lparr>last_err := ''Received ACK before all mode INFO.''\<rparr>)
         else if info_flags p AND LEGOEV3_UART_INFO_FLAG_REQUIRED
                 \<noteq> LEGOEV3_UART_INFO_FLAG_REQUIRED then
           Inl (p\<lparr>last_err := ''Did not receive all required INFO.''\<rparr>)
         else Inr (msg_size, p\<lparr>send_ack_work := True, info_done := True\<rparr>))
      else Inr (msg_size, p))"

definition cmd_msg ::
  "u8 \<Rightarrow> u8 \<Rightarrow> nat \<Rightarrow> legoev3_uart_port_data \<Rightarrow>
   legoev3_uart_port_data + legoev3_uart_port_data" where
  "cmd_msg cmd cmd2 msg_size p =
     (if cmd = LEGOEV3_UART_CMD_MODES then
        (case test_and_set_bit LEGOEV3_UART_INFO_BIT_CMD_MODES (info_flags p) of
           (old, flags) \<Rightarrow>
             let p1 = p\<lparr>info_flags := flags\<rparr> in
             if old then Inl (p1\<lparr>last_err := ''Received duplicate modes INFO.''\<rparr>)
             else if cmd2 = 0 \<or> unat cmd2 > LEGOEV3_UART_MODE_MAX then
               Inl (p1\<lparr>last_err := ''Number of modes is out of range.''\<rparr>)
             else
               let p2 = p1\<lparr>num_modes := cmd2 + 1\<rparr> in
               if msg_size > 3 then Inr (p2\<lparr>num_view_modes := buffer p2 ! 2 + 1\<rparr>)
               else Inr (p2\<lparr>num_view_modes := num_modes p2\<rparr>))
      else if cmd = LEGOEV3_UART_CMD_SPEED then
        (case test_and_set_bit LEGOEV3_UART_INFO_BIT_CMD_SPEED (info_flags p) of
           (old, flags) \<Rightarrow>
             let p1 = p\<lparr>info_flags := flags\<rparr> in
             if old then Inl (p1\<lparr>last_err := ''Received duplicate speed INFO.''\<rparr>)
             else
               let speed = load_le32 (buffer p1) 1 in
               if sint speed < sint LEGOEV3_UART_SPEED_MIN
                  \<or> sint speed > sint LEGOEV3_UART_SPEED_MAX then
                 Inl (p1\<lparr>last_err := ''Speed is out of range.''\<rparr>)
               else Inr (p1\<lparr>new_baud_rate := speed\<rparr>))
      else Inl (p\<lparr>last_err := ''Unknown command.''\<rparr>))"

text \<open>
  The three scaling records INFO_RAW, INFO_PCT and INFO_SI differ only in the flag bit,
  the message and the two fields they store.
\<close>

definition info_scaling ::
  "nat \<Rightarrow> string \<Rightarrow> (u32 \<Rightarrow> u32 \<Rightarrow> legoev3_uart_mode_info \<Rightarrow> legoev3_uart_mode_info) \<Rightarrow>
   u8 \<Rightarrow> legoev3_uart_port_data \<Rightarrow> legoev3_uart_port_data + legoev3_uart_port_data" where
  "info_scaling nr dup store m p =
     (if mode p \<noteq> m then Inl (p\<lparr>last_err := ''Received INFO for incorrect mode.''\<rparr>)
      else case test_and_set_bit nr (info_flags p) of
        (old, flags) \<Rightarrow>
          let p1 = p\<lparr>info_flags := flags\<rparr> in
          if old then Inl (p1\<lparr>last_err := dup\<rparr>)
          else Inr (upd_mode_info m
                      (store (load_le32 (buffer p1) 2) (load_le32 (buffer p1) 6)) p1))"

definition info_msg ::
  "legoev3_uart_h \<Rightarrow> u8 \<Rightarrow> u8 \<Rightarrow> nat \<Rightarrow> legoev3_uart_port_data \<Rightarrow>
   legoev3_uart_port_data + legoev3_uart_port_data" where
  "info_msg K m cmd2 msg_size p =
     (if cmd2 = LEGOEV3_UART_INFO_NAME then
        (let p1 = p\<lparr>info_flags := info_flags p AND NOT LEGOEV3_UART_INFO_FLAG_ALL_INFO\<rparr> in
         if buffer p1 ! 2 < 0x41 \<or> buffer p1 ! 2 > 0x7A then
           Inl (p1\<lparr>last_err := ''Invalid name INFO.''\<rparr>)
         else
           let p2 = p1\<lparr>buffer := (buffer p1)[msg_size - 1 := 0]\<rparr> in
           if strlen (drop 2 (buffer p2)) > LEGOEV3_UART_NAME_SIZE then
             Inl (p2\<lparr>last_err := ''Name is too long.''\<rparr>)
           else
             let p3 = upd_mode_info m
                        (\<lambda>mi. mi\<lparr>name := take LEGOEV3_UART_NAME_SIZE
                                              (c_string (drop 2 (buffer p2)))\<rparr>) p2
             in Inr (p3\<lparr>mode := m,
                        info_flags := info_flags p3 OR LEGOEV3_UART_INFO_FLAG_INFO_NAME\<rparr>))
      else if cmd2 = LEGOEV3_UART_INFO_RAW then
        info_scaling LEGOEV3_UART_INFO_BIT_INFO_RAW ''Received duplicate raw scaling INFO.''
          (\<lambda>lo hi mi. mi\<lparr>raw_min := lo, raw_max := hi\<rparr>) m p
      else if cmd2 = LEGOEV3_UART_INFO_PCT then
        info_scaling LEGOEV3_UART_INFO_BIT_INFO_PCT ''Received duplicate percent scaling INFO.''
          (\<lambda>lo hi mi. mi\<lparr>pct_min := lo, pct_max := hi\<rparr>) m p
      else if cmd2 = LEGOEV3_UART_INFO_SI then
        info_scaling LEGOEV3_UART_INFO_BIT_INFO_SI ''Received duplicate SI scaling INFO.''
          (\<lambda>lo hi mi. mi\<lparr>si_min := lo, si_max := hi\<rparr>) m p
      else if cmd2 = LEGOEV3_UART_INFO_UNITS then
        (if mode p \<noteq> m then Inl (p\<lparr>last_err := ''Received INFO for incorrect mode.''\<rparr>)
         else case test_and_set_bit LEGOEV3_UART_INFO_BIT_INFO_UNITS (info_flags p) of
           (old, flags) \<Rightarrow>
             let p1 = p\<lparr>info_flags := flags\<rparr> in
             if old then Inl (p1\<lparr>last_err := ''Received duplicate SI units INFO.''\<rparr>)
             else
               let p2 = p1\<lparr>buffer := (buffer p1)[msg_size - 1 := 0]\<rparr> in
               Inr (upd_mode_info m
                      (\<lambda>mi. mi\<lparr>units := take (LEGOEV3_UART_UNITS_SIZE K)
                                             (c_string (drop 2 (buffer p2)))\<rparr>) p2))
      else if cmd2 = LEGOEV3_UART_INFO_FORMAT then
        (if mode p \<noteq> m then Inl (p\<lparr>last_err := ''Received INFO for incorrect mode.''\<rparr>)
         else case test_and_set_bit LEGOEV3_UART_INFO_BIT_INFO_FORMAT (info_flags p) of
           (old, flags) \<Rightarrow>
             let p1 = p\<lparr>info_flags := flags\<rparr> in
             if old then Inl (p1\<lparr>last_err := ''Received duplicate format INFO.''\<rparr>)
             else
               let p2 = upd_mode_info m (\<lambda>mi. mi\<lparr>data_sets := buffer p1 ! 2\<rparr>) p1 in
               if data_sets (mode_info p2 ! unat m) = 0 then
                 Inl (p2\<lparr>last_err := ''Invalid number of data sets.''\<rparr>)
               else if msg_size < 7 then
                 Inl (p2\<lparr>last_err := ''Invalid format message size.''\<rparr>)
               else if info_flags p2 AND LEGOEV3_UART_INFO_FLAG_REQUIRED
                       \<noteq> LEGOEV3_UART_INFO_FLAG_REQUIRED then
                 Inl (p2\<lparr>last_err := ''Did not receive all required INFO.''\<rparr>)
               else
                 let p3 = upd_mode_info m (\<lambda>mi. mi\<lparr>format := buffer p2 ! 3\<rparr>) p2 in
                 if mode p3 \<noteq> 0 then
                   Inr (upd_mode_info m
                          (\<lambda>mi. mi\<lparr>figures := buffer p3 ! 4, decimals := buffer p3 ! 5\<rparr>)
                          (p3\<lparr>mode := mode p3 - 1\<rparr>))
                 else Inr p3)
      else Inr p)"

definition data_msg ::
  "u8 \<Rightarrow> nat \<Rightarrow> legoev3_uart_port_data \<Rightarrow>
   legoev3_uart_port_data + legoev3_uart_port_data" where
  "data_msg m msg_size p =
     (if \<not> info_done p then
        Inl (p\<lparr>last_err := ''Received DATA before INFO was complete.''\<rparr>)
      else
        let p1 = p\<lparr>mode := m\<rparr>;
            p2 = (upd_mode_info m
                    (\<lambda>mi. mi\<lparr>raw_data := memcpy (raw_data mi) (drop 1 (buffer p1))
                                                   (msg_size - 2)\<rparr>) p1)
                 \<lparr>overrun := overrun p1
                    + memcpy_overrun (raw_data (mode_info p1 ! unat m)) (msg_size - 2)\<rparr>;
            p3 = p2\<lparr>data_rec := True\<rparr>
        in if num_data_err p3 \<noteq> 0 then Inr (p3\<lparr>num_data_err := num_data_err p3 - 1\<rparr>)
           else Inr p3)"

text \<open>The \<^verbatim>\<open>switch (msg_type)\<close>.\<close>

definition dispatch ::
  "legoev3_uart_h \<Rightarrow> nat \<Rightarrow> legoev3_uart_port_data \<Rightarrow>
   legoev3_uart_port_data + nat \<times> legoev3_uart_port_data" where
  "dispatch K msg_size p =
     (let msg_type = buffer p ! 0 AND LEGOEV3_UART_MSG_TYPE_MASK;
          cmd = buffer p ! 0 AND LEGOEV3_UART_MSG_CMD_MASK;
          m = cmd;
          cmd2 = buffer p ! 1
      in if msg_type = LEGOEV3_UART_MSG_TYPE_SYS then sys_msg cmd cmd2 msg_size p
         else if msg_type = LEGOEV3_UART_MSG_TYPE_CMD then
           map_sum id (Pair msg_size) (cmd_msg cmd cmd2 msg_size p)
         else if msg_type = LEGOEV3_UART_MSG_TYPE_INFO then
           map_sum id (Pair msg_size) (info_msg K m cmd2 msg_size p)
         else if msg_type = LEGOEV3_UART_MSG_TYPE_DATA then
           map_sum id (Pair msg_size) (data_msg m msg_size p)
         else Inr (msg_size, p))"

text \<open>
  One pass of the loop ``process all complete messages'': the message at the start of the
  buffer is checked, handled and removed.  \<open>Inl\<close> is the jump to \<^verbatim>\<open>err_invalid_state\<close>.
\<close>

definition process_msg ::
  "legoev3_uart_h \<Rightarrow> legoev3_uart_port_data \<Rightarrow>
   legoev3_uart_port_data + legoev3_uart_port_data" where
  "process_msg K p =
     (let msg_size = legoev3_uart_msg_size (buffer p ! 0) in
      if buffer p ! 0 = 0xFF then Inr (drop_message 1 p)
      else if msg_size > 1
              \<and> checksum (buffer p) (msg_size - 1) \<noteq> buffer p ! (msg_size - 1)
              \<and> type p \<noteq> 29 \<and> buffer p ! 0 \<noteq> 0xDC then
        (let p1 = p\<lparr>last_err := ''Bad checksum.''\<rparr> in
         if info_done p1 then
           err_bad_data_msg_checksum msg_size (p1\<lparr>num_data_err := num_data_err p1 + 1\<rparr>)
         else Inl p1)
      else case dispatch K msg_size p of
             Inl p1 \<Rightarrow> Inl p1
           | Inr (ms, p1) \<Rightarrow> err_bad_data_msg_checksum ms p1)"

text \<open>
  The loop \<^verbatim>\<open>while ((msg_size = legoev3_uart_msg_size(port->buffer[0])) <= port->write_ptr)\<close>.
  Every pass that does not leave through \<^verbatim>\<open>err_invalid_state\<close> removes at least one byte,
  which is why the loop ends.
\<close>

function process_msgs ::
  "legoev3_uart_h \<Rightarrow> legoev3_uart_port_data \<Rightarrow> legoev3_uart_port_data" where
  "process_msgs K p =
     (if legoev3_uart_msg_size (buffer p ! 0) \<le> write_ptr p then
        (case process_msg K p of
           Inl p1 \<Rightarrow> err_invalid_state p1
         | Inr p1 \<Rightarrow> process_msgs K p1)
      else p)"
  by pat_completeness auto
termination
proof (relation "measure (\<lambda>(K, p). write_ptr p)")
  show "wf (measure (\<lambda>(K, p). write_ptr p))" by simp
next
  fix K :: legoev3_uart_h and p p1 :: legoev3_uart_port_data
  assume le: "legoev3_uart_msg_size (buffer p ! 0) \<le> write_ptr p"
    and step: "process_msg K p = Inr p1"
  let ?ms = "legoev3_uart_msg_size (buffer p ! 0)"
  have pos: "0 < ?ms"
    by (simp add: legoev3_uart_msg_size_def)
  have shift: "snd (shift_buffer ms wp buf i) = (if i + ms < wp then wp - ms else i)"
    for ms wp buf i
  proof (induction ms wp buf i rule: shift_buffer.induct)
    case (1 ms wp buf i)
    show ?case
      by (subst shift_buffer.simps) (use 1 in \<open>auto split: if_splits\<close>)
  qed
  have dropped: "write_ptr (drop_message ms q) = write_ptr q - ms" for ms q
    by (simp add: drop_message_def split_beta shift)
  have upd: "write_ptr (upd_mode_info m f q) = write_ptr q" for m f q
    by (simp add: upd_mode_info_def)
  have sys: "write_ptr q' = write_ptr q \<and> (ms \<le> 1 \<longrightarrow> ms' = ms)"
    if "sys_msg c c2 ms q = Inr (ms', q')" for c c2 ms ms' q q'
    using that by (auto simp: sys_msg_def split: if_splits)
  have cmd: "write_ptr q' = write_ptr q" if "cmd_msg c c2 ms q = Inr q'" for c c2 ms q q'
    using that by (auto simp: cmd_msg_def Let_def split: if_splits prod.splits)
  have scaling: "write_ptr q' = write_ptr q"
    if "info_scaling nr d st m q = Inr q'" for nr d st m q q'
    using that by (auto simp: info_scaling_def Let_def upd split: if_splits prod.splits)
  have info: "write_ptr q' = write_ptr q" if "info_msg K m c2 ms q = Inr q'" for m c2 ms q q'
    using that
    by (auto simp: info_msg_def Let_def upd split: if_splits prod.splits dest: scaling)
  have data: "write_ptr q' = write_ptr q" if "data_msg m ms q = Inr q'" for m ms q q'
    using that by (auto simp: data_msg_def Let_def upd split: if_splits prod.splits)
  have disp: "write_ptr q' = write_ptr p \<and> ms' = ?ms"
    if "dispatch K ?ms p = Inr (ms', q')" for ms' q'
    using that
    by (auto simp: dispatch_def Let_def map_sum_def legoev3_uart_msg_size_def
          LEGOEV3_UART_MSG_TYPE_SYS_def
        split: if_splits sum.splits dest: sys cmd info data)
  have "write_ptr p1 < write_ptr p"
    using step le pos
    by (auto simp: process_msg_def Let_def err_bad_data_msg_checksum_def dropped
        split: if_splits sum.splits prod.splits dest!: disp)
  then show "((K, p1), (K, p)) \<in> measure (\<lambda>(K, p). write_ptr p)" by simp
qed

declare process_msgs.simps [simp del]

text \<open>
  The loop that copies the delivered bytes into the buffer; \<open>Inl\<close> is the jump to
  \<^verbatim>\<open>err_invalid_state\<close> when the buffer is full.
\<close>

fun append_bytes ::
  "legoev3_uart_port_data \<Rightarrow> u8 list \<Rightarrow> legoev3_uart_port_data + legoev3_uart_port_data" where
  "append_bytes p [] = Inr p"
| "append_bytes p (c # cs) =
     (if write_ptr p \<ge> LEGOEV3_UART_BUFFER_SIZE then Inl p
      else append_bytes (p\<lparr>buffer := (buffer p)[write_ptr p := c],
                            write_ptr := write_ptr p + 1\<rparr>) cs)"

text \<open>
  The loop \<^verbatim>\<open>while (!port->synced)\<close> over the delivery \<open>cp\<close>, from position \<open>i\<close>.
  \<open>None\<close> is the \<^verbatim>\<open>return\<close> when fewer than three bytes are left; \<open>Some\<close> carries the
  synced port and the position after the TYPE command.
\<close>

function sync_scan ::
  "legoev3_uart_h \<Rightarrow> legoev3_uart_port_data \<Rightarrow> u8 list \<Rightarrow> nat \<Rightarrow>
   (legoev3_uart_port_data \<times> nat) option" where
  "sync_scan K p cp i =
     (if i + 2 \<ge> length cp then None
      else if cp ! i \<noteq> (LEGOEV3_UART_MSG_TYPE_CMD OR LEGOEV3_UART_CMD_TYPE) then
        sync_scan K p cp (Suc i)
      else if cp ! Suc i = 0 \<or> cp ! Suc i > LEGOEV3_UART_TYPE_MAX K then
        sync_scan K p cp (Suc i)
      else if cp ! (Suc i + 1) \<noteq> 0xFF XOR cp ! i XOR cp ! Suc i then
        sync_scan K p cp (Suc i)
      else
        Some (p\<lparr>num_modes := 1, num_view_modes := 1,
                 mode_info := replicate (LEGOEV3_UART_MODE_MAX + 1)
                                legoev3_uart_default_mode_info,
                 type := cp ! Suc i,
                 info_flags := LEGOEV3_UART_INFO_FLAG_CMD_TYPE,
                 synced := True, info_done := False, write_ptr := 0,
                 data_rec := False, num_data_err := 0\<rparr>,
              Suc i + 2))"
  by pat_completeness auto
termination
  by (relation "measure (\<lambda>(K, p, cp, i). length cp - i)") auto

declare sync_scan.simps [simp del]

text \<open>\<^verbatim>\<open>legoev3_uart_receive_buf\<close>: one delivery \<open>cp\<close> of received bytes.\<close>

definition legoev3_uart_receive_buf ::
  "legoev3_uart_h \<Rightarrow> legoev3_uart_port_data \<Rightarrow> u8 list \<Rightarrow> legoev3_uart_port_data" where
  "legoev3_uart_receive_buf K p cp =
     (case (if synced p then Some (p, 0) else sync_scan K p cp 0) of
        None \<Rightarrow> p
      | Some (p1, i) \<Rightarrow>
          (case append_bytes p1 (drop i cp) of
             Inl p2 \<Rightarrow> err_invalid_state p2
           | Inr p2 \<Rightarrow> process_msgs K p2))"

text \<open>A sequence of deliveries, in arrival order.\<close>

definition receive_all ::
  "legoev3_uart_h \<Rightarrow> legoev3_uart_port_data \<Rightarrow> u8 list list \<Rightarrow> legoev3_uart_port_data" where
  "receive_all K p cps = foldl (legoev3_uart_receive_buf K) p cps"

subsection \<open>Open, the delayed work and the keep-alive timer\<close>

text \<open>
  \<^verbatim>\<open>legoev3_uart_open\<close>: the port data after \<^verbatim>\<open>kzalloc\<close> and the initialisation; the tty is
  set to 2400 baud.
\<close>

definition legoev3_uart_open :: legoev3_uart_port_data where
  "legoev3_uart_open =
     \<lparr>tty_baud_rate = 2400, sensor = False, send_ack_work = False,
      change_bitrate_work = False, keep_alive_timer = False, keep_alive_tasklet = False,
      mode_info = replicate (LEGOEV3_UART_MODE_MAX + 1) zero_mode_info,
      type = LEGOEV3_UART_TYPE_UNKNOWN, num_modes = 0, num_view_modes = 0, mode = 0,
      new_baud_rate = LEGOEV3_UART_SPEED_MIN, info_flags = 0,
      buffer = replicate LEGOEV3_UART_BUFFER_SIZE 0, write_ptr = 0, last_err = [],
      num_data_err = 0, synced = False, info_done = False, data_rec = False,
      overrun = 0\<rparr>"

text \<open>
  \<^verbatim>\<open>legoev3_uart_send_ack\<close>, run when the delayed work \<^verbatim>\<open>send_ack_work\<close> is due.  The
  registration of the sensor device is taken to succeed; the ACK byte goes to the tty.
\<close>

definition legoev3_uart_send_ack ::
  "legoev3_uart_h \<Rightarrow> legoev3_uart_port_data \<Rightarrow> legoev3_uart_port_data" where
  "legoev3_uart_send_ack K p =
     (let p1 = p\<lparr>send_ack_work := False\<rparr>;
          p2 = (if \<not> sensor p1 \<and> type p1 \<le> LEGOEV3_UART_TYPE_MAX K
                then p1\<lparr>sensor := True\<rparr> else p1)
      in p2\<lparr>change_bitrate_work := True\<rparr>)"

text \<open>\<^verbatim>\<open>legoev3_uart_change_bitrate\<close>, run when \<^verbatim>\<open>change_bitrate_work\<close> is due.\<close>

definition legoev3_uart_change_bitrate :: "legoev3_uart_port_data \<Rightarrow> legoev3_uart_port_data" where
  "legoev3_uart_change_bitrate p =
     (let p1 = p\<lparr>change_bitrate_work := False, tty_baud_rate := new_baud_rate p\<rparr>
      in if info_done p1 then p1\<lparr>keep_alive_timer := True\<rparr> else p1)"

datatype hrtimer_restart = HRTIMER_NORESTART | HRTIMER_RESTART

text \<open>\<^verbatim>\<open>legoev3_uart_keep_alive_timer_callback\<close>: the verdict and the port after the tick.\<close>

definition legoev3_uart_keep_alive_timer_callback ::
  "legoev3_uart_port_data \<Rightarrow> hrtimer_restart \<times> legoev3_uart_port_data" where
  "legoev3_uart_keep_alive_timer_callback p =
     (if \<not> synced p \<or> \<not> info_done p then (HRTIMER_NORESTART, p)
      else
        let p1 = (if \<not> data_rec p
                  then p\<lparr>last_err := ''No data since last keep-alive.'',
                         num_data_err := num_data_err p + 1\<rparr>
                  else p);
            p2 = p1\<lparr>data_rec := False, keep_alive_tasklet := True\<rparr>
        in (if num_data_err p2 > LEGOEV3_UART_MAX_DATA_ERR then HRTIMER_NORESTART
            else HRTIMER_RESTART, p2))"

text \<open>
  The expiry of the keep-alive timer as the hrtimer core runs it: the callback, and the
  timer armed again only on the verdict \<^verbatim>\<open>HRTIMER_RESTART\<close>.
\<close>

definition keep_alive_tick :: "legoev3_uart_port_data \<Rightarrow> legoev3_uart_port_data" where
  "keep_alive_tick p =
     (case legoev3_uart_keep_alive_timer_callback p of
        (verdict, p1) \<Rightarrow> p1\<lparr>keep_alive_timer := (verdict = HRTIMER_RESTART)\<rparr>)"

subsection \<open>The value attributes\<close>

text \<open>A little-endian 16-bit load, \<^verbatim>\<open>*(s16 *)(raw_data + off)\<close>.\<close>

definition load_le16 :: "u8 list \<Rightarrow> nat \<Rightarrow> 16 word" where
  "load_le16 buf off = ucast (buf ! off) OR push_bit 8 (ucast (buf ! (off + 1)))"

definition legoev3_uart_get_mode :: "legoev3_uart_port_data \<Rightarrow> u8" where
  "legoev3_uart_get_mode p = mode p"

definition legoev3_uart_raw_s8_value :: "legoev3_uart_port_data \<Rightarrow> nat \<Rightarrow> int" where
  "legoev3_uart_raw_s8_value p index =
     sint (raw_data (mode_info p ! unat (legoev3_uart_get_mode p)) ! index)"

definition legoev3_uart_raw_s16_value :: "legoev3_uart_port_data \<Rightarrow> nat \<Rightarrow> int" where
  "legoev3_uart_raw_s16_value p index =
     sint (load_le16 (raw_data (mode_info p ! unat (legoev3_uart_get_mode p))) (index * 2))"

definition legoev3_uart_raw_s32_value :: "legoev3_uart_port_data \<Rightarrow> nat \<Rightarrow> int" where
  "legoev3_uart_raw_s32_value p index =
     sint (load_le32 (raw_data (mode_info p ! unat (legoev3_uart_get_mode p))) (index * 4))"

text \<open>
  \<^verbatim>\<open>legoev3_uart_ftoi\<close> is defined in another file of the driver; it is the parameter
  \<open>ftoi\<close> here.
\<close>

definition legoev3_uart_raw_float_value ::
  "(u32 \<Rightarrow> u8 \<Rightarrow> int) \<Rightarrow> legoev3_uart_port_data \<Rightarrow> nat \<Rightarrow> int" where
  "legoev3_uart_raw_float_value ftoi p index =
     ftoi (load_le32 (raw_data (mode_info p ! unat (legoev3_uart_get_mode p))) (index * 4))
          (decimals (mode_info p ! unat (legoev3_uart_get_mode p)))"

datatype errno = ENXIO

text \<open>
  \<^verbatim>\<open>legoev3_uart_show_value\<close> for the attribute \<^verbatim>\<open>value<index>\<close> (the driver creates
  \<^verbatim>\<open>value0\<close> to \<^verbatim>\<open>value7\<close>).  \<open>Inr v\<close> is the integer that \<^verbatim>\<open>sprintf\<close> prints into the
  caller's buffer, \<open>Inl ENXIO\<close> the return of \<^verbatim>\<open>-ENXIO\<close>.
\<close>

definition legoev3_uart_show_value ::
  "(u32 \<Rightarrow> u8 \<Rightarrow> int) \<Rightarrow> legoev3_uart_port_data \<Rightarrow> nat \<Rightarrow> errno + int" where
  "legoev3_uart_show_value ftoi p index =
     (let mi = mode_info p ! unat (mode p) in
      if int index \<ge> uint (data_sets mi) then Inl ENXIO
      else if format mi = LEGOEV3_UART_DATA_8 then Inr (legoev3_uart_raw_s8_value p index)
      else if format mi = LEGOEV3_UART_DATA_16 then Inr (legoev3_uart_raw_s16_value p index)
      else if format mi = LEGOEV3_UART_DATA_32 then Inr (legoev3_uart_raw_s32_value p index)
      else if format mi = LEGOEV3_UART_DATA_FLOAT then
        Inr (legoev3_uart_raw_float_value ftoi p index)
      else Inl ENXIO)"

subsection \<open>Phases, events and example sessions\<close>

text \<open>
  The driver has no phase variable.  The keep-alive callback and the DATA arm both take
  \<^verbatim>\<open>synced\<close> with \<^verbatim>\<open>info_done\<close> as ``the sensor is sending data'', the spec's Running.
\<close>

definition Running :: "legoev3_uart_port_data \<Rightarrow> bool" where
  "Running p \<longleftrightarrow> synced p \<and> info_done p"

text \<open>
  A complete frame whose last byte is not the checksum of the bytes before it, and that
  the header exception of the checksum test does not cover.
\<close>

definition bad_checksum_frame :: "u8 list \<Rightarrow> bool" where
  "bad_checksum_frame f \<longleftrightarrow>
     f \<noteq> [] \<and> hd f \<noteq> 0xFF \<and> hd f \<noteq> 0xDC \<and> 1 < length f
     \<and> length f = legoev3_uart_msg_size (hd f)
     \<and> checksum f (length f - 1) \<noteq> last f"

text \<open>
  A complete DATA frame whose last byte is the checksum of the bytes before it.
\<close>

definition good_checksum_data_frame :: "u8 list \<Rightarrow> bool" where
  "good_checksum_data_frame f \<longleftrightarrow>
     f \<noteq> [] \<and> hd f \<noteq> 0xFF
     \<and> hd f AND LEGOEV3_UART_MSG_TYPE_MASK = LEGOEV3_UART_MSG_TYPE_DATA
     \<and> length f = legoev3_uart_msg_size (hd f)
     \<and> checksum f (length f - 1) = last f"

text \<open>
  A complete INFO_NAME frame with a good checksum that the NAME arm accepts: the name
  starts with a character from A to z and is at most \<^verbatim>\<open>LEGOEV3_UART_NAME_SIZE\<close> long.
\<close>

definition good_info_name_frame :: "u8 list \<Rightarrow> bool" where
  "good_info_name_frame f \<longleftrightarrow>
     f \<noteq> []
     \<and> hd f AND LEGOEV3_UART_MSG_TYPE_MASK = LEGOEV3_UART_MSG_TYPE_INFO
     \<and> length f = legoev3_uart_msg_size (hd f)
     \<and> f ! 1 = LEGOEV3_UART_INFO_NAME
     \<and> checksum f (length f - 1) = last f
     \<and> 0x41 \<le> f ! 2 \<and> f ! 2 \<le> 0x7A
     \<and> strlen (drop 2 (butlast f)) \<le> LEGOEV3_UART_NAME_SIZE"

text \<open>
  The TYPE triplet the spec describes, at position \<open>i\<close> of a delivery: the header
  CMD|TYPE, a type byte from 1 to the largest type, and the checksum of the two.
\<close>

definition valid_type_triplet :: "legoev3_uart_h \<Rightarrow> u8 list \<Rightarrow> nat \<Rightarrow> bool" where
  "valid_type_triplet K cp i \<longleftrightarrow>
     i + 2 < length cp
     \<and> cp ! i = (LEGOEV3_UART_MSG_TYPE_CMD OR LEGOEV3_UART_CMD_TYPE)
     \<and> cp ! (i + 1) \<noteq> 0 \<and> cp ! (i + 1) \<le> LEGOEV3_UART_TYPE_MAX K
     \<and> cp ! (i + 2) = 0xFF XOR cp ! i XOR cp ! (i + 1)"

text \<open>No position before \<open>j\<close> of the delivery starts a valid TYPE triplet.\<close>

definition no_type_triplet_before :: "legoev3_uart_h \<Rightarrow> u8 list \<Rightarrow> nat \<Rightarrow> bool" where
  "no_type_triplet_before K cp j \<longleftrightarrow>
     list_all (\<lambda>i. \<not> valid_type_triplet K cp i) [0..<j]"

text \<open>
  The port as the sync scanner leaves it when it accepts a TYPE triplet with type byte
  \<open>t\<close>.
\<close>

definition type_synced :: "legoev3_uart_port_data \<Rightarrow> u8 \<Rightarrow> legoev3_uart_port_data" where
  "type_synced p t =
     p\<lparr>num_modes := 1, num_view_modes := 1,
       mode_info := replicate (LEGOEV3_UART_MODE_MAX + 1) legoev3_uart_default_mode_info,
       type := t, info_flags := LEGOEV3_UART_INFO_FLAG_CMD_TYPE,
       synced := True, info_done := False, write_ptr := 0,
       data_rec := False, num_data_err := 0\<rparr>"

text \<open>
  What the receive callback does with the bytes \<open>cs\<close> that follow the TYPE triplet in the
  same delivery: they go into the buffer of the synced port and the framer runs.
\<close>

definition frame_rest ::
  "legoev3_uart_h \<Rightarrow> legoev3_uart_port_data \<Rightarrow> u8 list \<Rightarrow> legoev3_uart_port_data" where
  "frame_rest K p cs =
     (case append_bytes p cs of
        Inl q \<Rightarrow> err_invalid_state q
      | Inr q \<Rightarrow> process_msgs K q)"

text \<open>
  The current mode is the index of one of the \<^verbatim>\<open>LEGOEV3_UART_MODE_MAX + 1\<close> slots of the
  mode table.
\<close>

definition mode_in_table :: "legoev3_uart_port_data \<Rightarrow> bool" where
  "mode_in_table p \<longleftrightarrow>
     length (mode_info p) = LEGOEV3_UART_MODE_MAX + 1 \<and> unat (mode p) < length (mode_info p)"

text \<open>
  What \<^verbatim>\<open>err_invalid_state\<close> leaves behind: the port is not synced, the next bit rate is
  the minimum, and the work that sets it is pending.
\<close>

definition resync_pending :: "legoev3_uart_port_data \<Rightarrow> bool" where
  "resync_pending p \<longleftrightarrow>
     \<not> synced p \<and> new_baud_rate p = LEGOEV3_UART_SPEED_MIN \<and> change_bitrate_work p"

text \<open>
  The two bad data events: a delivery of one frame with a bad checksum, and a keep-alive
  tick (which is a miss when no good DATA frame has set \<^verbatim>\<open>data_rec\<close> since the last one).
\<close>

datatype data_event = Bad_frame "u8 list" | Keep_alive_tick

fun apply_event ::
  "legoev3_uart_h \<Rightarrow> legoev3_uart_port_data \<Rightarrow> data_event \<Rightarrow> legoev3_uart_port_data" where
  "apply_event K p (Bad_frame f) = legoev3_uart_receive_buf K p f"
| "apply_event K p Keep_alive_tick = keep_alive_tick p"


definition data_events ::
  "legoev3_uart_h \<Rightarrow> legoev3_uart_port_data \<Rightarrow> data_event list \<Rightarrow> legoev3_uart_port_data" where
  "data_events K p es = foldl (apply_event K) p es"

text \<open>
  The header constants for the examples: 101 is the largest type of the EV3 sensor
  protocol and 4 the length of its units strings.  The examples use the sensor types 16
  and 29 only, and no units record.
\<close>

definition ev3_uart_h :: legoev3_uart_h where
  "ev3_uart_h = \<lparr>LEGOEV3_UART_TYPE_MAX = 101, LEGOEV3_UART_UNITS_SIZE = 4\<rparr>"

text \<open>
  The handshake of a sensor of type \<open>t\<close> with two modes of which it describes mode 0:
  TYPE, MODES, SPEED 57600, INFO_NAME ``T'' for mode 0, INFO_FORMAT for mode 0 (one data
  set, format S8, 5 figures, 2 decimals) and ACK.
\<close>

definition handshake :: "u8 \<Rightarrow> u8 list" where
  "handshake t =
     [0x40, t, 0xFF XOR 0x40 XOR t,
      0x49, 0x01, 0x00, 0xB7,
      0x52, 0x00, 0xE1, 0x00, 0x00, 0x4C,
      0x80, 0x00, 0x54, 0x2B,
      0x90, 0x80, 0x01, 0x00, 0x05, 0x02, 0xE9,
      0x04]"

text \<open>
  The session of a sensor of type \<open>t\<close> after that handshake, the delayed ACK and the
  delayed change of the bit rate.
\<close>

definition running_session :: "u8 \<Rightarrow> legoev3_uart_port_data" where
  "running_session t =
     legoev3_uart_change_bitrate
       (legoev3_uart_send_ack ev3_uart_h
          (legoev3_uart_receive_buf ev3_uart_h legoev3_uart_open (handshake t)))"

text \<open>A DATA frame for mode 0 with payload 42: the checksum is 0x15; 0x00 is a bad one.\<close>

definition good_data_frame :: "u8 list" where
  "good_data_frame = [0xC0, 0x2A, 0x15]"

definition bad_data_frame :: "u8 list" where
  "bad_data_frame = [0xC0, 0x2A, 0x00]"

section \<open>Facts about the model\<close>

lemma msg_size_pos: "0 < legoev3_uart_msg_size h"
  by (simp add: legoev3_uart_msg_size_def)

lemma process_msgs_empty: "write_ptr p = 0 \<Longrightarrow> process_msgs K p = p"
  using msg_size_pos [of "buffer p ! 0"] by (subst process_msgs.simps) simp

lemma and_7_le: "unat (x AND 7 :: u8) \<le> 7"
  using word_and_le1 [of x 7] by (simp add: word_le_nat_alt)

lemma CMD_SIZE_le: "LEGOEV3_UART_CMD_SIZE h \<le> 128"
proof -
  have "(2::nat) ^ unat (drop_bit 3 h AND 0x7) \<le> 2 ^ 7"
    using and_7_le [of "drop_bit 3 h"] by (intro power_increasing) simp_all
  then show ?thesis by (simp add: LEGOEV3_UART_CMD_SIZE_def)
qed

lemma msg_size_le: "legoev3_uart_msg_size h \<le> 131"
  using CMD_SIZE_le [of h] by (simp add: legoev3_uart_msg_size_def)

lemma shift_buffer_all: "wp \<le> ms \<Longrightarrow> shift_buffer ms wp buf 0 = (buf, 0)"
  by (subst shift_buffer.simps) simp

lemma drop_message_all:
  "write_ptr p \<le> ms \<Longrightarrow> drop_message ms p = p\<lparr>write_ptr := 0\<rparr>"
  by (simp add: drop_message_def shift_buffer_all)

lemma append_bytes_fits:
  "write_ptr p + length cs \<le> LEGOEV3_UART_BUFFER_SIZE \<Longrightarrow>
   write_ptr p + length cs \<le> length (buffer p) \<Longrightarrow>
   append_bytes p cs =
     Inr (p\<lparr>buffer := take (write_ptr p) (buffer p) @ cs
                         @ drop (write_ptr p + length cs) (buffer p),
            write_ptr := write_ptr p + length cs\<rparr>)"
proof (induction cs arbitrary: p)
  case Nil
  then show ?case by simp
next
  case (Cons c cs)
  let ?q = "p\<lparr>buffer := (buffer p)[write_ptr p := c], write_ptr := write_ptr p + 1\<rparr>"
  from Cons.prems have lt: "write_ptr p < length (buffer p)"
    and lt': "write_ptr p < LEGOEV3_UART_BUFFER_SIZE" by simp_all
  have "append_bytes p (c # cs) = append_bytes ?q cs"
    using lt' by simp
  also have "\<dots> = Inr (?q\<lparr>buffer := take (write_ptr ?q) (buffer ?q) @ cs
                         @ drop (write_ptr ?q + length cs) (buffer ?q),
            write_ptr := write_ptr ?q + length cs\<rparr>)"
    using Cons.prems by (intro Cons.IH) simp_all
  also have "take (write_ptr ?q) (buffer ?q) = take (write_ptr p) (buffer p) @ [c]"
    using lt by (simp add: take_Suc_conv_app_nth)
  also have "drop (write_ptr ?q + length cs) (buffer ?q)
      = drop (write_ptr p + length (c # cs)) (buffer p)"
    by simp
  finally show ?case by simp
qed

lemma append_bytes_empty_buffer:
  assumes "write_ptr p = 0" "length (buffer p) = LEGOEV3_UART_BUFFER_SIZE"
    "length cs \<le> LEGOEV3_UART_BUFFER_SIZE"
  shows "append_bytes p cs =
     Inr (p\<lparr>buffer := cs @ drop (length cs) (buffer p), write_ptr := length cs\<rparr>)"
  using append_bytes_fits [of p cs] assms by simp

lemma bad_frame_length: "bad_checksum_frame f \<Longrightarrow> length f \<le> LEGOEV3_UART_BUFFER_SIZE"
  using msg_size_le [of "hd f"]
  by (simp add: bad_checksum_frame_def LEGOEV3_UART_BUFFER_SIZE_def)

lemma process_bad_frame:
  assumes f: "bad_checksum_frame f"
    and p: "info_done p" "type p \<noteq> 29"
  shows "process_msg K (p\<lparr>buffer := f @ rest, write_ptr := length f\<rparr>) =
     (if num_data_err p + 1 > LEGOEV3_UART_MAX_DATA_ERR
      then Inl (p\<lparr>buffer := f @ rest, write_ptr := length f, last_err := ''Bad checksum.'',
                  num_data_err := num_data_err p + 1\<rparr>)
      else Inr (p\<lparr>buffer := f @ rest, write_ptr := 0, last_err := ''Bad checksum.'',
                  num_data_err := num_data_err p + 1\<rparr>))"
proof -
  from f have ne: "f \<noteq> []" and h: "hd f \<noteq> 0xFF" "hd f \<noteq> 0xDC"
    and len: "legoev3_uart_msg_size (hd f) = length f" "1 < length f"
    and cs: "checksum f (length f - 1) \<noteq> last f"
    unfolding bad_checksum_frame_def by auto
  have nth0: "(f @ rest) ! 0 = hd f"
    using ne by (simp add: nth_append hd_conv_nth)
  have last: "(f @ rest) ! (length f - Suc 0) = last f"
    using ne by (simp add: nth_append last_conv_nth)
  have chk: "checksum (f @ rest) (length f - Suc 0) = checksum f (length f - Suc 0)"
    by (simp add: checksum_def)
  show ?thesis
    using h len cs p
    by (simp add: process_msg_def nth0 last chk Let_def err_bad_data_msg_checksum_def
        drop_message_all)
qed

lemma receive_bad_frame:
  assumes f: "bad_checksum_frame f"
    and p: "synced p" "info_done p" "type p \<noteq> 29" "write_ptr p = 0"
      "length (buffer p) = LEGOEV3_UART_BUFFER_SIZE"
  shows "legoev3_uart_receive_buf K p f =
     (if num_data_err p + 1 > LEGOEV3_UART_MAX_DATA_ERR
      then p\<lparr>change_bitrate_work := True, new_baud_rate := LEGOEV3_UART_SPEED_MIN,
             buffer := f @ drop (length f) (buffer p), write_ptr := length f,
             last_err := ''Bad checksum.'', num_data_err := num_data_err p + 1,
             synced := False\<rparr>
      else p\<lparr>buffer := f @ drop (length f) (buffer p), last_err := ''Bad checksum.'',
             num_data_err := num_data_err p + 1\<rparr>)"
proof -
  let ?rest = "drop (length f) (buffer p)"
  let ?q = "p\<lparr>buffer := f @ ?rest, write_ptr := length f\<rparr>"
  have app: "append_bytes p f = Inr ?q"
    using p bad_frame_length [OF f] by (simp add: append_bytes_empty_buffer)
  have le: "legoev3_uart_msg_size (buffer ?q ! 0) \<le> write_ptr ?q"
    using f by (cases f) (auto simp: bad_checksum_frame_def)
  have "legoev3_uart_receive_buf K p f = process_msgs K ?q"
    using p by (simp add: legoev3_uart_receive_buf_def app)
  also have "\<dots> = (case process_msg K ?q of Inl p1 \<Rightarrow> err_invalid_state p1
                     | Inr p1 \<Rightarrow> process_msgs K p1)"
    using le by (subst process_msgs.simps) simp
  finally show ?thesis
    using p
    by (simp add: process_bad_frame [OF f] process_msgs_empty err_invalid_state_def)
qed


lemma keep_alive_miss:
  assumes "synced p" "info_done p" "\<not> data_rec p"
  shows "legoev3_uart_keep_alive_timer_callback p =
     (if num_data_err p + 1 > LEGOEV3_UART_MAX_DATA_ERR then HRTIMER_NORESTART
      else HRTIMER_RESTART,
      p\<lparr>keep_alive_tasklet := True, last_err := ''No data since last keep-alive.'',
        num_data_err := num_data_err p + 1, data_rec := False\<rparr>)"
  using assms by (simp add: legoev3_uart_keep_alive_timer_callback_def)

section \<open>The claims\<close>

subsection \<open>C1: the checksum exception\<close>

text \<open>
  C1 (in Running, a frame with a bad checksum is accepted exactly when the sensor type is
  29 and the first byte is 0xDC; every other combination counts a checksum error).  The
  test of the driver lets a bad checksum through when the type is 29 or the first byte is
  0xDC.  A sensor of type 16 sends the 0xDC frame with eight payload bytes 0x11 and the
  checksum 0x11 in place of 0x23: the frame is accepted, the payload stored for mode 4 and
  no error counted.  A sensor of type 29 sends the mode 0 frame C0 2A with the checksum
  0x00 in place of 0x15: accepted as well.
\<close>

theorem bad_checksum_accepted_for_type_16_and_for_header_C0:
  "(let p = running_session 16;
        f = 0xDC # replicate 8 0x11 @ [0x11];
        q = legoev3_uart_receive_buf ev3_uart_h p f;
        p' = running_session 29;
        q' = legoev3_uart_receive_buf ev3_uart_h p' bad_data_frame
    in Running p \<and> type p = 16 \<and> num_data_err p = 0 \<and> write_ptr p = 0
       \<and> length f = legoev3_uart_msg_size (hd f) \<and> checksum f 9 = 0x23 \<and> last f = 0x11
       \<and> Running q \<and> num_data_err q = 0 \<and> data_rec q \<and> mode q = 4 \<and> write_ptr q = 0
       \<and> take 8 (raw_data (mode_info q ! 4)) = replicate 8 0x11
       \<and> Running p' \<and> type p' = 29 \<and> num_data_err p' = 0 \<and> write_ptr p' = 0
       \<and> hd bad_data_frame = 0xC0 \<and> bad_checksum_frame bad_data_frame
       \<and> Running q' \<and> num_data_err q' = 0 \<and> data_rec q' \<and> write_ptr q' = 0
       \<and> raw_data (mode_info q' ! 0) ! 0 = 0x2A)"
  by code_simp

subsection \<open>C2: how many bad data events end Running\<close>




text \<open>
  The frames that are not bad data events: a bad checksum under the first byte 0xDC is let
  through by the checksum exception (C1), so the frame is handled as a good DATA frame.
  Seven of them leave the count at 0, and one of them after six keep-alive misses lowers
  the count from 6 to 5.
\<close>

lemma bad_checksum_under_header_DC_is_not_counted:
  "(let p = running_session 16;
        f = 0xDC # replicate 8 0x11 @ [0x11];
        q = receive_all ev3_uart_h p (replicate 7 f);
        r = legoev3_uart_receive_buf ev3_uart_h
              (data_events ev3_uart_h p (replicate 6 Keep_alive_tick)) f
    in checksum f 9 \<noteq> last f \<and> \<not> bad_checksum_frame f
       \<and> Running q \<and> num_data_err q = 0
       \<and> Running r \<and> num_data_err r = 5)"
  by code_simp



subsection \<open>C3: the keep-alive tick that takes the count over the threshold\<close>

text \<open>
  A SYS byte is a message of its own, and with the count over the threshold every arm it
  can take ends in \<^verbatim>\<open>err_invalid_state\<close>.
\<close>

lemma sys_header_size: "c AND 0xC0 = 0 \<Longrightarrow> legoev3_uart_msg_size c = 1"
  by (simp add: legoev3_uart_msg_size_def LEGOEV3_UART_MSG_TYPE_MASK_def)

lemma sys_header_not_FF: "c AND 0xC0 = 0 \<Longrightarrow> c \<noteq> (0xFF :: u8)"
  by auto

lemma process_sys_over_threshold:
  assumes c: "c AND 0xC0 = 0"
    and p: "info_done p" "num_data_err p > LEGOEV3_UART_MAX_DATA_ERR" "buffer p ! 0 = c"
  shows "\<exists>q. process_msg K p = Inl q \<and> tty_baud_rate q = tty_baud_rate p"
  using p c sys_header_not_FF [OF c]
  by (auto simp: process_msg_def sys_header_size dispatch_def Let_def sys_msg_def
      err_bad_data_msg_checksum_def LEGOEV3_UART_MSG_TYPE_MASK_def
      LEGOEV3_UART_MSG_TYPE_SYS_def)

lemma receive_sys_over_threshold:
  assumes c: "c AND 0xC0 = 0"
    and p: "synced p" "info_done p" "num_data_err p > LEGOEV3_UART_MAX_DATA_ERR"
      "write_ptr p = 0" "length (buffer p) = LEGOEV3_UART_BUFFER_SIZE"
  shows "(let r = legoev3_uart_receive_buf K p [c]
          in resync_pending r \<and> tty_baud_rate r = tty_baud_rate p)"
proof -
  let ?q = "p\<lparr>buffer := (buffer p)[0 := c], write_ptr := Suc 0\<rparr>"
  have b0: "buffer ?q ! 0 = c"
    using p by (simp add: LEGOEV3_UART_BUFFER_SIZE_def)
  obtain q' where q': "process_msg K ?q = Inl q'" "tty_baud_rate q' = tty_baud_rate p"
    using process_sys_over_threshold [OF c, of ?q K] p b0 by auto
  have "legoev3_uart_receive_buf K p [c] = process_msgs K ?q"
    using p by (simp add: legoev3_uart_receive_buf_def LEGOEV3_UART_BUFFER_SIZE_def)
  also have "\<dots> = err_invalid_state q'"
    using b0 q' by (subst process_msgs.simps) (simp add: sys_header_size [OF c])
  finally show ?thesis
    using q' by (simp add: err_invalid_state_def resync_pending_def)
qed

text \<open>
  C3 as stated (the tick that takes the count past the threshold clears \<^verbatim>\<open>synced\<close> and
  sets the bit rate back to 2400) fails: after six keep-alive misses in the session of a
  type 16 sensor that asked for 57600 baud, the seventh tick returns
  \<^verbatim>\<open>HRTIMER_NORESTART\<close> and raises the count to 7, and the session is still synced and
  Running, at 57600 baud, with no change of the bit rate scheduled.
\<close>

theorem seventh_keep_alive_miss_leaves_the_session_synced:
  "(let p = data_events ev3_uart_h (running_session 16) (replicate 6 Keep_alive_tick);
        q = keep_alive_tick p
    in Running p \<and> num_data_err p = 6 \<and> \<not> data_rec p \<and> keep_alive_timer p
       \<and> fst (legoev3_uart_keep_alive_timer_callback p) = HRTIMER_NORESTART
       \<and> q = snd (legoev3_uart_keep_alive_timer_callback p)\<lparr>keep_alive_timer := False\<rparr>
       \<and> num_data_err q = 7 \<and> synced q \<and> Running q \<and> \<not> resync_pending q
       \<and> \<not> change_bitrate_work q \<and> new_baud_rate q = 57600 \<and> tty_baud_rate q = 57600
       \<and> write_ptr q = write_ptr p \<and> buffer q = buffer p)"
  by code_simp

text \<open>
  C3, amended: the keep-alive tick that finds no data and raises the count from 6 to 7
  only declines to restart the keep-alive timer.  It records the error text and schedules
  the keep-alive byte as every tick does, and leaves the session Running: \<^verbatim>\<open>synced\<close>,
  the bit rates, the pending work and the receive buffer are as before.  The recovery is
  done by the receive callback on the next message it handles with the count still over
  the threshold: after a SYS byte, or a frame with a bad checksum, \<^verbatim>\<open>synced\<close> is cleared,
  the next bit rate is 2400 and the work that sets it is scheduled; when that work runs
  the tty is at 2400 baud.
\<close>

theorem keep_alive_tick_over_threshold_only_stops_the_timer:
  assumes "Running p" "\<not> data_rec p" "num_data_err p = LEGOEV3_UART_MAX_DATA_ERR"
  shows "legoev3_uart_keep_alive_timer_callback p =
           (HRTIMER_NORESTART,
            p\<lparr>keep_alive_tasklet := True, last_err := ''No data since last keep-alive.'',
              num_data_err := 7, data_rec := False\<rparr>)
     \<and> (let q = keep_alive_tick p
         in Running q \<and> \<not> resync_pending q \<and> \<not> keep_alive_timer q \<and> num_data_err q = 7
            \<and> new_baud_rate q = new_baud_rate p \<and> tty_baud_rate q = tty_baud_rate p
            \<and> change_bitrate_work q = change_bitrate_work p
            \<and> buffer q = buffer p \<and> write_ptr q = write_ptr p
            \<and> (write_ptr p = 0 \<and> length (buffer p) = LEGOEV3_UART_BUFFER_SIZE
                 \<and> c AND 0xC0 = 0 \<longrightarrow>
                (let r = legoev3_uart_receive_buf K q [c]
                 in resync_pending r
                    \<and> tty_baud_rate (legoev3_uart_change_bitrate r)
                        = LEGOEV3_UART_SPEED_MIN))
            \<and> (write_ptr p = 0 \<and> length (buffer p) = LEGOEV3_UART_BUFFER_SIZE
                 \<and> type p \<noteq> 29 \<and> bad_checksum_frame f \<longrightarrow>
                (let r = legoev3_uart_receive_buf K q f
                 in resync_pending r
                    \<and> tty_baud_rate (legoev3_uart_change_bitrate r)
                        = LEGOEV3_UART_SPEED_MIN)))"
proof -
  have cb: "legoev3_uart_keep_alive_timer_callback p =
           (HRTIMER_NORESTART,
            p\<lparr>keep_alive_tasklet := True, last_err := ''No data since last keep-alive.'',
              num_data_err := 7, data_rec := False\<rparr>)"
    using assms by (simp add: keep_alive_miss Running_def LEGOEV3_UART_MAX_DATA_ERR_def)
  let ?q = "keep_alive_tick p"
  have q: "?q = p\<lparr>keep_alive_timer := False, keep_alive_tasklet := True,
              last_err := ''No data since last keep-alive.'',
              num_data_err := 7, data_rec := False\<rparr>"
    by (simp add: keep_alive_tick_def cb)
  have over: "LEGOEV3_UART_MAX_DATA_ERR < num_data_err ?q"
    by (simp add: q LEGOEV3_UART_MAX_DATA_ERR_def)
  have over': "LEGOEV3_UART_MAX_DATA_ERR < num_data_err ?q + 1"
    by (simp add: q LEGOEV3_UART_MAX_DATA_ERR_def)
  have run: "synced ?q" "info_done ?q"
    using assms by (simp_all add: q Running_def)
  have sys: "(let r = legoev3_uart_receive_buf K ?q [c]
          in resync_pending r
             \<and> tty_baud_rate (legoev3_uart_change_bitrate r) = LEGOEV3_UART_SPEED_MIN)"
    if "c AND 0xC0 = 0" "write_ptr p = 0" "length (buffer p) = LEGOEV3_UART_BUFFER_SIZE"
    using receive_sys_over_threshold [OF that(1) run over, of K] that(2,3)
    by (simp add: q Let_def legoev3_uart_change_bitrate_def resync_pending_def)
  have bad: "(let r = legoev3_uart_receive_buf K ?q f
          in resync_pending r
             \<and> tty_baud_rate (legoev3_uart_change_bitrate r) = LEGOEV3_UART_SPEED_MIN)"
    if "bad_checksum_frame f" "type p \<noteq> 29" "write_ptr p = 0"
      "length (buffer p) = LEGOEV3_UART_BUFFER_SIZE"
  proof -
    have "type ?q \<noteq> 29" "write_ptr ?q = 0" "length (buffer ?q) = LEGOEV3_UART_BUFFER_SIZE"
      using that by (simp_all add: q)
    from receive_bad_frame [OF that(1) run this, of K] over'
    show ?thesis
      by (simp add: Let_def legoev3_uart_change_bitrate_def resync_pending_def)
  qed
  show ?thesis
    using cb sys bad assms
    by (auto simp: q Running_def Let_def resync_pending_def)
qed

theorem keep_alive_tick_over_threshold_only_stops_the_timer_witness:
  "(let p = data_events ev3_uart_h (running_session 16) (replicate 6 Keep_alive_tick);
        q = keep_alive_tick p;
        r = legoev3_uart_receive_buf ev3_uart_h q [LEGOEV3_UART_SYS_SYNC];
        r' = legoev3_uart_receive_buf ev3_uart_h q bad_data_frame
    in Running p \<and> \<not> data_rec p \<and> num_data_err p = LEGOEV3_UART_MAX_DATA_ERR
       \<and> write_ptr p = 0 \<and> length (buffer p) = LEGOEV3_UART_BUFFER_SIZE
       \<and> LEGOEV3_UART_SYS_SYNC AND 0xC0 = 0
       \<and> type p \<noteq> 29 \<and> bad_checksum_frame bad_data_frame
       \<and> fst (legoev3_uart_keep_alive_timer_callback p) = HRTIMER_NORESTART
       \<and> Running q \<and> \<not> resync_pending q \<and> \<not> keep_alive_timer q \<and> num_data_err q = 7
       \<and> resync_pending r
       \<and> tty_baud_rate (legoev3_uart_change_bitrate r) = LEGOEV3_UART_SPEED_MIN
       \<and> resync_pending r'
       \<and> tty_baud_rate (legoev3_uart_change_bitrate r') = LEGOEV3_UART_SPEED_MIN)"
proof -
  let ?p = "data_events ev3_uart_h (running_session 16) (replicate 6 Keep_alive_tick)"
  have h1: "Running ?p" by code_simp
  have h2: "\<not> data_rec ?p" by code_simp
  have h3: "num_data_err ?p = LEGOEV3_UART_MAX_DATA_ERR" by code_simp
  have h4: "write_ptr ?p = 0 \<and> length (buffer ?p) = LEGOEV3_UART_BUFFER_SIZE" by code_simp
  have h5: "LEGOEV3_UART_SYS_SYNC AND 0xC0 = 0" by code_simp
  have h6: "type ?p \<noteq> 29 \<and> bad_checksum_frame bad_data_frame" by code_simp
  from keep_alive_tick_over_threshold_only_stops_the_timer
         [OF h1 h2 h3, of LEGOEV3_UART_SYS_SYNC ev3_uart_h bad_data_frame] h4 h5 h6
  show ?thesis
    using h1 h2 h3 by (simp add: Let_def)
qed

subsection \<open>C4: the current mode and the number of modes\<close>

text \<open>
  Every handler keeps the current mode an index of the mode table: the mode bits of a
  header are at most 7, and INFO_FORMAT decrements a mode that is not 0.
\<close>

lemma cmd_bits_le: "unat (h AND LEGOEV3_UART_MSG_CMD_MASK) < 8"
  using and_7_le [of h] by (simp add: LEGOEV3_UART_MSG_CMD_MASK_def)

lemma unat_dec: "(m :: u8) \<noteq> 0 \<Longrightarrow> unat (m - 1) < unat m"
  by (simp add: unat_minus_one unat_gt_0)

lemma mit_upd [simp]: "mode_in_table (upd_mode_info m f p) = mode_in_table p"
  by (simp add: mode_in_table_def upd_mode_info_def)

lemma mit_drop [simp]: "mode_in_table (drop_message ms p) = mode_in_table p"
  by (simp add: mode_in_table_def drop_message_def split_beta)

lemma mit_err [simp]: "mode_in_table (err_invalid_state p) = mode_in_table p"
  by (simp add: mode_in_table_def err_invalid_state_def)

lemma mit_other_fields [simp]:
  "mode_in_table (p\<lparr>last_err := e\<rparr>) = mode_in_table p"
  "mode_in_table (p\<lparr>num_data_err := n\<rparr>) = mode_in_table p"
  "mode_in_table (p\<lparr>info_flags := fl\<rparr>) = mode_in_table p"
  "mode_in_table (p\<lparr>buffer := b\<rparr>) = mode_in_table p"
  "mode_in_table (p\<lparr>write_ptr := w\<rparr>) = mode_in_table p"
  "mode_in_table (p\<lparr>num_modes := nm\<rparr>) = mode_in_table p"
  "mode_in_table (p\<lparr>num_view_modes := nv\<rparr>) = mode_in_table p"
  "mode_in_table (p\<lparr>new_baud_rate := s\<rparr>) = mode_in_table p"
  "mode_in_table (p\<lparr>send_ack_work := a\<rparr>) = mode_in_table p"
  "mode_in_table (p\<lparr>info_done := d\<rparr>) = mode_in_table p"
  "mode_in_table (p\<lparr>data_rec := r\<rparr>) = mode_in_table p"
  by (simp_all add: mode_in_table_def)

lemma mit_mode:
  "mode_in_table p \<Longrightarrow> unat m < 8 \<Longrightarrow> mode_in_table (p\<lparr>mode := m\<rparr>)"
  by (simp add: mode_in_table_def LEGOEV3_UART_MODE_MAX_def)

lemma mit_mode_dec:
  "mode_in_table p \<Longrightarrow> mode p \<noteq> 0 \<Longrightarrow> mode_in_table (p\<lparr>mode := mode p - 1\<rparr>)"
  using unat_dec [of "mode p"] by (simp add: mode_in_table_def)

lemma threshold_cases:
  "err_bad_data_msg_checksum ms p = Inl q \<Longrightarrow> q = p"
  "err_bad_data_msg_checksum ms p = Inr q \<Longrightarrow> q = drop_message ms p"
  by (auto simp: err_bad_data_msg_checksum_def split: if_splits)

lemma mit_sys:
  "mode_in_table p \<Longrightarrow> sys_msg c c2 ms p = Inl q \<or> sys_msg c c2 ms p = Inr (ms', q) \<Longrightarrow>
   mode_in_table q"
  by (auto simp: sys_msg_def split: if_splits)

lemma mit_cmd:
  "mode_in_table p \<Longrightarrow> cmd_msg c c2 ms p = Inl q \<or> cmd_msg c c2 ms p = Inr q \<Longrightarrow>
   mode_in_table q"
  by (auto simp: cmd_msg_def Let_def test_and_set_bit_def split: if_splits)

lemma mit_scaling:
  "mode_in_table p \<Longrightarrow>
   info_scaling nr d st m p = Inl q \<or> info_scaling nr d st m p = Inr q \<Longrightarrow>
   mode_in_table q"
  by (auto simp: info_scaling_def Let_def test_and_set_bit_def split: if_splits)

lemma mit_info:
  "mode_in_table p \<Longrightarrow> unat m < 8 \<Longrightarrow>
   info_msg K m c2 ms p = Inl q \<or> info_msg K m c2 ms p = Inr q \<Longrightarrow>
   mode_in_table q"
  using unat_dec [of "mode p"]
  unfolding info_msg_def info_scaling_def Let_def test_and_set_bit_def upd_mode_info_def
    mode_in_table_def LEGOEV3_UART_MODE_MAX_def
  by (auto split: if_splits)

lemma mit_data:
  "mode_in_table p \<Longrightarrow> unat m < 8 \<Longrightarrow>
   data_msg m ms p = Inl q \<or> data_msg m ms p = Inr q \<Longrightarrow>
   mode_in_table q"
  unfolding data_msg_def Let_def upd_mode_info_def mode_in_table_def LEGOEV3_UART_MODE_MAX_def
  by (auto split: if_splits)

lemma mit_dispatch:
  "mode_in_table p \<Longrightarrow> dispatch K ms p = Inl q \<or> dispatch K ms p = Inr (ms', q) \<Longrightarrow>
   mode_in_table q"
  unfolding dispatch_def Let_def map_sum_def
  by (auto split: if_splits sum.splits
      dest: mit_sys mit_cmd mit_info [OF _ cmd_bits_le] mit_data [OF _ cmd_bits_le])

lemma mit_process_msg:
  "mode_in_table p \<Longrightarrow> process_msg K p = Inl q \<or> process_msg K p = Inr q \<Longrightarrow>
   mode_in_table q"
  unfolding process_msg_def Let_def
  by (auto split: if_splits sum.splits prod.splits
      dest!: threshold_cases dest: mit_dispatch)


lemma mit_process_msgs: "mode_in_table p \<Longrightarrow> mode_in_table (process_msgs K p)"
proof (induction K p rule: process_msgs.induct)
  case (1 K p)
  show ?case
  proof (cases "legoev3_uart_msg_size (buffer p ! 0) \<le> write_ptr p")
    case False
    then show ?thesis
      using "1.prems" by (subst process_msgs.simps) simp
  next
    case True
    show ?thesis
    proof (cases "process_msg K p")
      case (Inl q)
      then show ?thesis
        using True mit_process_msg [OF "1.prems", of K q]
        by (subst process_msgs.simps) simp
    next
      case (Inr q)
      then show ?thesis
        using True mit_process_msg [OF "1.prems", of K q] "1.IH" [OF True Inr]
        by (subst process_msgs.simps) simp
    qed
  qed
qed

lemma mit_append:
  "mode_in_table p \<Longrightarrow> append_bytes p cs = Inl q \<or> append_bytes p cs = Inr q \<Longrightarrow>
   mode_in_table q"
proof (induction cs arbitrary: p)
  case Nil
  then show ?case by simp
next
  case (Cons c cs)
  let ?p' = "p\<lparr>buffer := (buffer p)[write_ptr p := c], write_ptr := write_ptr p + 1\<rparr>"
  show ?case
  proof (cases "LEGOEV3_UART_BUFFER_SIZE \<le> write_ptr p")
    case True
    then show ?thesis
      using Cons.prems by auto
  next
    case False
    have "mode_in_table ?p'"
      using Cons.prems(1) by (simp add: mode_in_table_def)
    from Cons.IH [OF this] Cons.prems(2) False show ?thesis
      by simp
  qed
qed

lemma mit_sync_scan:
  "mode_in_table p \<Longrightarrow> sync_scan K p cp i = Some (q, j) \<Longrightarrow> mode_in_table q"
proof (induction K p cp i rule: sync_scan.induct)
  case (1 K p cp i)
  from "1.prems"(2) show ?case
    by (subst (asm) sync_scan.simps)
       (use 1 in \<open>auto simp: mode_in_table_def LEGOEV3_UART_MODE_MAX_def split: if_splits\<close>)
qed

lemma mit_receive_buf:
  assumes "mode_in_table p"
  shows "mode_in_table (legoev3_uart_receive_buf K p cp)"
proof -
  have after: "mode_in_table (case append_bytes q cs of Inl q' \<Rightarrow> err_invalid_state q'
                         | Inr q' \<Rightarrow> process_msgs K q')" if "mode_in_table q" for q cs
    using mit_append [OF that, of cs] by (auto split: sum.splits intro: mit_process_msgs)
  show ?thesis
  proof (cases "synced p")
    case True
    then show ?thesis
      using after [OF assms] by (simp add: legoev3_uart_receive_buf_def)
  next
    case False
    then show ?thesis
      using assms after mit_sync_scan [OF assms]
      by (auto simp: legoev3_uart_receive_buf_def split: option.splits)
  qed
qed

lemma mit_open: "mode_in_table legoev3_uart_open"
  by (simp add: mode_in_table_def legoev3_uart_open_def LEGOEV3_UART_MODE_MAX_def)

text \<open>
  A DATA frame and an INFO_NAME frame that the handlers accept set the current mode to the
  mode bits of the header, and leave the number of modes alone.
\<close>

lemma process_good_data_frame:
  assumes f: "good_checksum_data_frame f" and p: "info_done p"
  shows "\<exists>q. (process_msg K (p\<lparr>buffer := f @ rest, write_ptr := length f\<rparr>) = Inl q
               \<or> process_msg K (p\<lparr>buffer := f @ rest, write_ptr := length f\<rparr>) = Inr q
                 \<and> write_ptr q = 0)
            \<and> mode q = hd f AND LEGOEV3_UART_MSG_CMD_MASK \<and> num_modes q = num_modes p"
proof -
  from f have ne: "f \<noteq> []" and h: "hd f \<noteq> 0xFF"
    "hd f AND LEGOEV3_UART_MSG_TYPE_MASK = LEGOEV3_UART_MSG_TYPE_DATA"
    and len: "legoev3_uart_msg_size (hd f) = length f"
    and cs: "checksum f (length f - Suc 0) = last f"
    unfolding good_checksum_data_frame_def by auto
  have nth0: "(f @ rest) ! 0 = hd f"
    using ne by (simp add: nth_append hd_conv_nth)
  have last: "(f @ rest) ! (length f - Suc 0) = last f"
    using ne by (simp add: nth_append last_conv_nth)
  have chk: "checksum (f @ rest) (length f - Suc 0) = checksum f (length f - Suc 0)"
    by (simp add: checksum_def)
  show ?thesis
    using h len cs p
    by (simp add: process_msg_def nth0 last chk Let_def dispatch_def data_msg_def
        upd_mode_info_def err_bad_data_msg_checksum_def drop_message_all
        LEGOEV3_UART_MSG_TYPE_SYS_def LEGOEV3_UART_MSG_TYPE_CMD_def
        LEGOEV3_UART_MSG_TYPE_INFO_def LEGOEV3_UART_MSG_TYPE_DATA_def)
qed

lemma c_string_stops: "c_string (xs @ 0 # ys) = c_string xs"
  by (induction xs) (simp_all add: c_string_def)

lemma info_size: "h AND LEGOEV3_UART_MSG_TYPE_MASK = LEGOEV3_UART_MSG_TYPE_INFO \<Longrightarrow>
   4 \<le> legoev3_uart_msg_size h"
  by (simp add: legoev3_uart_msg_size_def LEGOEV3_UART_CMD_SIZE_def
      LEGOEV3_UART_MSG_TYPE_INFO_def Suc_le_eq)

lemma process_good_info_name_frame:
  assumes f: "good_info_name_frame f"
  shows "\<exists>q. (process_msg K (p\<lparr>buffer := f @ rest, write_ptr := length f\<rparr>) = Inl q
               \<or> process_msg K (p\<lparr>buffer := f @ rest, write_ptr := length f\<rparr>) = Inr q
                 \<and> write_ptr q = 0)
            \<and> mode q = hd f AND LEGOEV3_UART_MSG_CMD_MASK \<and> num_modes q = num_modes p"
proof -
  from f have ne: "f \<noteq> []"
    and h: "hd f AND LEGOEV3_UART_MSG_TYPE_MASK = LEGOEV3_UART_MSG_TYPE_INFO"
    and len: "legoev3_uart_msg_size (hd f) = length f"
    and sub: "f ! Suc 0 = LEGOEV3_UART_INFO_NAME"
    and cs: "checksum f (length f - Suc 0) = last f"
    and ch: "\<not> f ! 2 < 0x41" "\<not> 0x7A < f ! 2"
    and nm: "\<not> LEGOEV3_UART_NAME_SIZE < strlen (drop 2 (butlast f))"
    unfolding good_info_name_frame_def by (auto simp: not_less)
  have l4: "4 \<le> length f"
    using info_size [OF h] len by simp
  have hFF: "hd f \<noteq> 0xFF"
    using h by (auto simp: LEGOEV3_UART_MSG_TYPE_MASK_def LEGOEV3_UART_MSG_TYPE_INFO_def)
  have nth0: "(f @ rest) ! 0 = hd f"
    using ne by (simp add: nth_append hd_conv_nth)
  have nth1: "(f @ rest) ! Suc 0 = f ! Suc 0" and nth2: "(f @ rest) ! 2 = f ! 2"
    using l4 by (simp_all add: nth_append)
  have last: "(f @ rest) ! (length f - Suc 0) = last f"
    using ne by (simp add: nth_append last_conv_nth)
  have chk: "checksum (f @ rest) (length f - Suc 0) = checksum f (length f - Suc 0)"
    by (simp add: checksum_def)
  have upd: "(f @ rest)[length f - Suc 0 := 0] = butlast f @ 0 # rest"
    using ne by (induction f) (auto simp: list_update_append split: nat.splits)
  have "drop 2 (butlast f @ 0 # rest) = drop 2 (butlast f) @ 0 # rest"
    using l4 by simp
  then have str: "strlen (drop 2 ((f @ rest)[length f - Suc 0 := 0]))
      = strlen (drop 2 (butlast f))"
    by (simp add: upd strlen_def c_string_stops)
  show ?thesis
    using hFF h len cs ch nm sub l4
    by (simp add: process_msg_def nth0 nth1 nth2 last chk str Let_def dispatch_def
        info_msg_def upd_mode_info_def err_bad_data_msg_checksum_def drop_message_all
        LEGOEV3_UART_MSG_TYPE_SYS_def LEGOEV3_UART_MSG_TYPE_CMD_def
        LEGOEV3_UART_MSG_TYPE_INFO_def)
qed

lemma receive_one_frame:
  assumes flen: "length f = legoev3_uart_msg_size (hd f)" "f \<noteq> []"
    and p: "synced p" "write_ptr p = 0" "length (buffer p) = LEGOEV3_UART_BUFFER_SIZE"
    and step: "\<exists>q. (process_msg K (p\<lparr>buffer := f @ drop (length f) (buffer p),
                                      write_ptr := length f\<rparr>) = Inl q
               \<or> process_msg K (p\<lparr>buffer := f @ drop (length f) (buffer p),
                                   write_ptr := length f\<rparr>) = Inr q
                 \<and> write_ptr q = 0)
            \<and> mode q = m \<and> num_modes q = n"
  shows "(let q = legoev3_uart_receive_buf K p f in mode q = m \<and> num_modes q = n)"
proof -
  let ?rest = "drop (length f) (buffer p)"
  let ?q = "p\<lparr>buffer := f @ ?rest, write_ptr := length f\<rparr>"
  have "length f \<le> LEGOEV3_UART_BUFFER_SIZE"
    using flen msg_size_le [of "hd f"] by (simp add: LEGOEV3_UART_BUFFER_SIZE_def)
  then have app: "append_bytes p f = Inr ?q"
    using p by (simp add: append_bytes_empty_buffer)
  have le: "legoev3_uart_msg_size (buffer ?q ! 0) \<le> write_ptr ?q"
    using flen by (cases f) auto
  have rb: "legoev3_uart_receive_buf K p f =
      (case process_msg K ?q of Inl p1 \<Rightarrow> err_invalid_state p1
                     | Inr p1 \<Rightarrow> process_msgs K p1)"
    using p le by (simp add: legoev3_uart_receive_buf_def app process_msgs.simps [of K ?q])
  from step show ?thesis
    by (auto simp: rb Let_def err_invalid_state_def process_msgs_empty)
qed

text \<open>
  C4 as stated (in every reachable state the current mode is below \<^verbatim>\<open>num_modes\<close>) fails.
  After open both are 0.  After TYPE, when \<^verbatim>\<open>num_modes\<close> is 1, an INFO_NAME frame for mode
  5 sets the current mode to 5.  In the Running session of a sensor that declared two
  modes, a DATA frame for mode 5 with a good checksum sets it to 5.
\<close>

theorem current_mode_at_or_above_num_modes:
  "(let p = legoev3_uart_receive_buf ev3_uart_h legoev3_uart_open
              [0x40, 0x10, 0xAF,  0x85, 0x00, 0x54, 0x2E];
        q = legoev3_uart_receive_buf ev3_uart_h (running_session 16) [0xC5, 0x2A, 0x10]
    in mode legoev3_uart_open = 0 \<and> num_modes legoev3_uart_open = 0
       \<and> synced p \<and> num_modes p = 1 \<and> mode p = 5 \<and> \<not> mode p < num_modes p
       \<and> good_checksum_data_frame [0xC5, 0x2A, 0x10]
       \<and> num_modes (running_session 16) = 2
       \<and> Running q \<and> num_modes q = 2 \<and> mode q = 5 \<and> \<not> mode q < num_modes q
       \<and> num_data_err q = 0 \<and> raw_data (mode_info q ! 5) ! 0 = 0x2A)"
  by code_simp

text \<open>
  The run that the invariant below leaves out: in a Running session a DATA frame for mode
  7 with 64 payload bytes and a good checksum is accepted and writes 32 bytes beyond the
  \<^verbatim>\<open>raw_data\<close> of the last slot of the table, over the members that follow the table in
  the port data, of which \<^verbatim>\<open>mode\<close> is one.
\<close>

lemma data_frame_for_mode_7_overruns_the_table:
  "(let p = running_session 16;
        f = 0xF7 # replicate 64 0x11 @ [0x08];
        q = legoev3_uart_receive_buf ev3_uart_h p f
    in Running p \<and> overrun p = 0 \<and> good_checksum_data_frame f
       \<and> hd f AND LEGOEV3_UART_MSG_CMD_MASK = 7 \<and> length f - 2 = 64
       \<and> overrun q = 32)"
  by code_simp

text \<open>
  C4, amended: in every state reached from open by any sequence of deliveries in which no
  DATA frame has overrun \<^verbatim>\<open>raw_data\<close> (see C8), the current mode is the index of one of
  the 8 slots of the mode table.  It is not kept below \<^verbatim>\<open>num_modes\<close>.  In Running a DATA
  frame with a good checksum and at most 32 payload bytes, delivered whole into an empty
  buffer, sets the current mode to the mode bits m of its header and leaves \<^verbatim>\<open>num_modes\<close>
  as it is; so does, in any synced state, an INFO_NAME frame with a good checksum and a
  name the handler accepts.
\<close>

theorem current_mode_is_a_slot_of_the_mode_table:
  "(overrun (receive_all K legoev3_uart_open cps) = 0 \<longrightarrow>
      mode_in_table (receive_all K legoev3_uart_open cps))
   \<and> (Running p \<and> write_ptr p = 0 \<and> length (buffer p) = LEGOEV3_UART_BUFFER_SIZE
        \<and> good_checksum_data_frame f \<and> length f - 2 \<le> LEGOEV3_UART_SENSOR_DATA_SIZE \<longrightarrow>
       (let q = legoev3_uart_receive_buf K p f
        in mode q = hd f AND LEGOEV3_UART_MSG_CMD_MASK \<and> num_modes q = num_modes p))
   \<and> (synced p \<and> write_ptr p = 0 \<and> length (buffer p) = LEGOEV3_UART_BUFFER_SIZE
        \<and> good_info_name_frame g \<longrightarrow>
       (let q = legoev3_uart_receive_buf K p g
        in mode q = hd g AND LEGOEV3_UART_MSG_CMD_MASK \<and> num_modes q = num_modes p))"
proof (intro conjI impI)
  have "mode_in_table (foldl (legoev3_uart_receive_buf K) p cps)" if "mode_in_table p" for p
    using that by (induction cps arbitrary: p) (simp_all add: mit_receive_buf)
  then show "mode_in_table (receive_all K legoev3_uart_open cps)"
    by (simp add: receive_all_def mit_open)
next
  assume a: "Running p \<and> write_ptr p = 0 \<and> length (buffer p) = LEGOEV3_UART_BUFFER_SIZE
        \<and> good_checksum_data_frame f \<and> length f - 2 \<le> LEGOEV3_UART_SENSOR_DATA_SIZE"
  then have f: "good_checksum_data_frame f" and r: "synced p" "info_done p"
    by (simp_all add: Running_def)
  from f have "length f = legoev3_uart_msg_size (hd f)" "f \<noteq> []"
    by (simp_all add: good_checksum_data_frame_def)
  then show "(let q = legoev3_uart_receive_buf K p f
        in mode q = hd f AND LEGOEV3_UART_MSG_CMD_MASK \<and> num_modes q = num_modes p)"
    using a r process_good_data_frame [OF f r(2)]
    by (intro receive_one_frame) simp_all
next
  assume a: "synced p \<and> write_ptr p = 0 \<and> length (buffer p) = LEGOEV3_UART_BUFFER_SIZE
        \<and> good_info_name_frame g"
  then have g: "good_info_name_frame g" by simp
  from g have "length g = legoev3_uart_msg_size (hd g)" "g \<noteq> []"
    by (simp_all add: good_info_name_frame_def)
  then show "(let q = legoev3_uart_receive_buf K p g
        in mode q = hd g AND LEGOEV3_UART_MSG_CMD_MASK \<and> num_modes q = num_modes p)"
    using a process_good_info_name_frame [OF g]
    by (intro receive_one_frame) simp_all
qed

theorem current_mode_is_a_slot_of_the_mode_table_witness:
  "(let cps = [[0x40, 0x10, 0xAF], [0x85, 0x00], [0x54, 0x2E]];
        p = running_session 16;
        f = [0xC5, 0x2A, 0x10];
        g = [0x85, 0x00, 0x54, 0x2E];
        q = legoev3_uart_receive_buf ev3_uart_h p f;
        r = legoev3_uart_receive_buf ev3_uart_h p g
    in overrun (receive_all ev3_uart_h legoev3_uart_open cps) = 0
       \<and> mode_in_table (receive_all ev3_uart_h legoev3_uart_open cps)
       \<and> mode (receive_all ev3_uart_h legoev3_uart_open cps) = 5
       \<and> Running p \<and> write_ptr p = 0 \<and> length (buffer p) = LEGOEV3_UART_BUFFER_SIZE
       \<and> good_checksum_data_frame f \<and> length f - 2 \<le> LEGOEV3_UART_SENSOR_DATA_SIZE
       \<and> mode q = hd f AND LEGOEV3_UART_MSG_CMD_MASK \<and> num_modes q = num_modes p
       \<and> mode q = 5 \<and> num_modes q = 2
       \<and> good_info_name_frame g
       \<and> mode r = hd g AND LEGOEV3_UART_MSG_CMD_MASK \<and> num_modes r = num_modes p
       \<and> mode r = 5)"
proof -
  let ?cps = "[[0x40, 0x10, 0xAF], [0x85, 0x00], [0x54, 0x2E]] :: u8 list list"
  let ?p = "running_session 16"
  let ?f = "[0xC5, 0x2A, 0x10] :: u8 list"
  let ?g = "[0x85, 0x00, 0x54, 0x2E] :: u8 list"
  have h0: "overrun (receive_all ev3_uart_h legoev3_uart_open ?cps) = 0
       \<and> mode (receive_all ev3_uart_h legoev3_uart_open ?cps) = 5"
    by code_simp
  have h1: "Running ?p \<and> write_ptr ?p = 0 \<and> length (buffer ?p) = LEGOEV3_UART_BUFFER_SIZE
       \<and> good_checksum_data_frame ?f \<and> length ?f - 2 \<le> LEGOEV3_UART_SENSOR_DATA_SIZE"
    by code_simp
  have h2: "synced ?p \<and> good_info_name_frame ?g \<and> num_modes ?p = 2
       \<and> hd ?f AND LEGOEV3_UART_MSG_CMD_MASK = 5 \<and> hd ?g AND LEGOEV3_UART_MSG_CMD_MASK = 5"
    by code_simp
  from current_mode_is_a_slot_of_the_mode_table [of ev3_uart_h ?cps ?p ?f ?g] h0 h1 h2
  show ?thesis
    by (simp add: Let_def)
qed

subsection \<open>C5: the sync scanner and split deliveries\<close>

text \<open>
  The scanner tries each position of the delivery in turn: it returns with the port
  untouched when no position starts a valid TYPE triplet, and stops at the first that
  does.
\<close>

lemma no_type_triplet_before_iff:
  "no_type_triplet_before K cp j \<longleftrightarrow> (\<forall>i<j. \<not> valid_type_triplet K cp i)"
  by (auto simp: no_type_triplet_before_def list_all_iff)

lemma sync_scan_step:
  "\<not> valid_type_triplet K cp i \<Longrightarrow> i + 2 < length cp \<Longrightarrow>
   sync_scan K p cp i = sync_scan K p cp (Suc i)"
  by (subst sync_scan.simps) (auto simp: valid_type_triplet_def not_le)

lemma sync_scan_hit:
  "valid_type_triplet K cp i \<Longrightarrow>
   sync_scan K p cp i = Some (type_synced p (cp ! (i + 1)), i + 3)"
  by (subst sync_scan.simps) (auto simp: valid_type_triplet_def type_synced_def)

lemma sync_scan_none:
  "(\<forall>j\<ge>i. \<not> valid_type_triplet K cp j) \<Longrightarrow> sync_scan K p cp i = None"
proof (induction "length cp - i" arbitrary: i)
  case 0
  then show ?case by (subst sync_scan.simps) simp
next
  case (Suc n)
  show ?case
  proof (cases "i + 2 < length cp")
    case False
    then show ?thesis by (subst sync_scan.simps) simp
  next
    case True
    have "sync_scan K p cp i = sync_scan K p cp (Suc i)"
      using Suc.prems True by (intro sync_scan_step) simp_all
    also have "\<dots> = None"
      using Suc.hyps(2) Suc.prems by (intro Suc.hyps(1)) simp_all
    finally show ?thesis .
  qed
qed

lemma sync_scan_first:
  "valid_type_triplet K cp j \<Longrightarrow> i \<le> j \<Longrightarrow>
   (\<forall>k. i \<le> k \<and> k < j \<longrightarrow> \<not> valid_type_triplet K cp k) \<Longrightarrow>
   sync_scan K p cp i = Some (type_synced p (cp ! (j + 1)), j + 3)"
proof (induction "j - i" arbitrary: i)
  case 0
  then show ?case by (simp add: sync_scan_hit)
next
  case (Suc n)
  then have lt: "i < j" by simp
  have len: "i + 2 < length cp"
    using Suc.prems(1) lt by (simp add: valid_type_triplet_def)
  have "sync_scan K p cp i = sync_scan K p cp (Suc i)"
    using Suc.prems lt len by (intro sync_scan_step) simp_all
  also have "\<dots> = Some (type_synced p (cp ! (j + 1)), j + 3)"
    using Suc.hyps(2) Suc.prems lt by (intro Suc.hyps(1)) simp_all
  finally show ?case .
qed

lemma receive_buf_no_triplet:
  "\<not> synced p \<Longrightarrow> no_type_triplet_before K cp (length cp) \<Longrightarrow>
   legoev3_uart_receive_buf K p cp = p"
proof -
  assume p: "\<not> synced p" and no: "no_type_triplet_before K cp (length cp)"
  have "\<not> valid_type_triplet K cp j" for j
    using no by (cases "j < length cp")
      (simp_all add: no_type_triplet_before_iff valid_type_triplet_def)
  then have "sync_scan K p cp 0 = None"
    by (intro sync_scan_none) simp
  then show ?thesis
    using p by (simp add: legoev3_uart_receive_buf_def)
qed

lemma receive_all_no_triplet:
  "\<not> synced p \<Longrightarrow> list_all (\<lambda>cp. no_type_triplet_before K cp (length cp)) cps \<Longrightarrow>
   receive_all K p cps = p"
  unfolding receive_all_def
  by (induction cps) (simp_all add: receive_buf_no_triplet)

lemma receive_buf_first_triplet:
  "\<not> synced p \<Longrightarrow> valid_type_triplet K cp j \<Longrightarrow> no_type_triplet_before K cp j \<Longrightarrow>
   legoev3_uart_receive_buf K p cp
     = frame_rest K (type_synced p (cp ! (j + 1))) (drop (j + 3) cp)"
  using sync_scan_first [of K cp j 0 p]
  by (simp add: legoev3_uart_receive_buf_def frame_rest_def no_type_triplet_before_iff)

lemma short_delivery_no_triplet:
  "length cp < 3 \<Longrightarrow> no_type_triplet_before K cp (length cp)"
  by (simp add: no_type_triplet_before_iff valid_type_triplet_def)

text \<open>
  C5 as stated (while unsynced, the bytes left at the end of a delivery are kept for the
  next one, so a TYPE triplet split across two deliveries still synchronizes) fails: the
  scanner reads the delivery itself and returns when fewer than three bytes are left.  The
  triplet 40 10 AF delivered as 40 and 10 AF, or as 40 10 and AF, leaves the port as it
  was after open; delivered in one piece it synchronizes.
\<close>

theorem split_type_triplet_is_not_recognized:
  "(let p = receive_all ev3_uart_h legoev3_uart_open [[0x40], [0x10, 0xAF]];
        q = receive_all ev3_uart_h legoev3_uart_open [[0x40, 0x10], [0xAF]];
        r = receive_all ev3_uart_h legoev3_uart_open [[0x40, 0x10, 0xAF]]
    in \<not> synced p \<and> write_ptr p = 0 \<and> p = legoev3_uart_open
       \<and> \<not> synced q \<and> write_ptr q = 0 \<and> q = legoev3_uart_open
       \<and> synced r \<and> type r = 16)"
  by code_simp

text \<open>
  A triplet that is found does not by itself leave the port synced at the end of the
  delivery: in 40 11 AE 40 10 AF the scanner accepts the first triplet, type 17, and the
  framer then takes the second one for an unknown command and clears \<^verbatim>\<open>synced\<close>.
\<close>

lemma second_type_triplet_goes_to_the_framer:
  "(let cp = [0x40, 0x11, 0xAE, 0x40, 0x10, 0xAF];
        q = legoev3_uart_receive_buf ev3_uart_h legoev3_uart_open cp
    in valid_type_triplet ev3_uart_h cp 0 \<and> valid_type_triplet ev3_uart_h cp 3
       \<and> q = frame_rest ev3_uart_h (type_synced legoev3_uart_open 0x11) [0x40, 0x10, 0xAF]
       \<and> \<not> synced q \<and> type q = 17 \<and> last_err q = ''Unknown command.'')"
  by code_simp

text \<open>
  C5, amended: while unsynced the scanner keeps nothing between deliveries.  It tries the
  positions of a delivery in turn and gives up when fewer than three bytes are left.  A
  delivery in which no position starts a valid TYPE triplet (header 0x40, a type from 1 to
  the largest type, the checksum), and so every delivery of fewer than three bytes, leaves
  an unsynced port exactly as it was, however many such deliveries arrive: a triplet split
  across two deliveries is not recognized.  In a delivery that holds a valid triplet the
  scanner accepts the first one: the port is reset and synced for the type in the second
  byte of that triplet, and the bytes that follow it in the delivery are handed to the
  framer, whose handling of them gives the state at the end of the delivery; with nothing
  after the triplet that state is the freshly synced port.
\<close>

theorem unsynced_scanner_keeps_no_bytes:
  assumes "\<not> synced p"
  shows "(list_all (\<lambda>cp. no_type_triplet_before K cp (length cp)) cps \<longrightarrow>
            receive_all K p cps = p)
     \<and> (length cp < 3 \<longrightarrow> legoev3_uart_receive_buf K p cp = p)
     \<and> (valid_type_triplet K cp j \<and> no_type_triplet_before K cp j \<longrightarrow>
            legoev3_uart_receive_buf K p cp
              = frame_rest K (type_synced p (cp ! (j + 1))) (drop (j + 3) cp))
     \<and> (let q = type_synced p t
         in synced q \<and> type q = t \<and> write_ptr q = 0 \<and> \<not> info_done q
            \<and> info_flags q = LEGOEV3_UART_INFO_FLAG_CMD_TYPE \<and> frame_rest K q [] = q)"
proof (intro conjI impI)
  assume "list_all (\<lambda>cp. no_type_triplet_before K cp (length cp)) cps"
  then show "receive_all K p cps = p"
    using assms by (rule receive_all_no_triplet [rotated])
next
  assume "length cp < 3"
  then show "legoev3_uart_receive_buf K p cp = p"
    using assms by (simp add: receive_buf_no_triplet short_delivery_no_triplet)
next
  assume "valid_type_triplet K cp j \<and> no_type_triplet_before K cp j"
  then show "legoev3_uart_receive_buf K p cp
              = frame_rest K (type_synced p (cp ! (j + 1))) (drop (j + 3) cp)"
    using assms receive_buf_first_triplet [of p K cp j] by simp
next
  show "(let q = type_synced p t
         in synced q \<and> type q = t \<and> write_ptr q = 0 \<and> \<not> info_done q
            \<and> info_flags q = LEGOEV3_UART_INFO_FLAG_CMD_TYPE \<and> frame_rest K q [] = q)"
  proof -
    have "write_ptr (type_synced p t) = 0"
      by (simp add: type_synced_def)
    then have "frame_rest K (type_synced p t) [] = type_synced p t"
      by (simp add: frame_rest_def process_msgs_empty)
    then show ?thesis
      by (simp add: Let_def) (simp add: type_synced_def)
  qed
qed

theorem unsynced_scanner_keeps_no_bytes_witness:
  "(let p = legoev3_uart_open;
        cps = [[0x00, 0x40, 0x10], [0xAF, 0x00, 0x40, 0x10], [0xAF, 0x40]];
        cp = [0xFF, 0x40, 0x00, 0x40, 0x10, 0xAF, 0x49, 0x01, 0x00, 0xB7];
        q = legoev3_uart_receive_buf ev3_uart_h p cp
    in \<not> synced p
       \<and> list_all (\<lambda>cp. no_type_triplet_before ev3_uart_h cp (length cp)) cps
       \<and> receive_all ev3_uart_h p cps = p
       \<and> length [0x40 :: u8, 0x10] < 3
       \<and> legoev3_uart_receive_buf ev3_uart_h p [0x40, 0x10] = p
       \<and> valid_type_triplet ev3_uart_h cp 3 \<and> no_type_triplet_before ev3_uart_h cp 3
       \<and> q = frame_rest ev3_uart_h (type_synced p (cp ! 4)) (drop 6 cp)
       \<and> synced q \<and> type q = 16 \<and> num_modes q = 2 \<and> write_ptr q = 0)"
proof -
  let ?p = "legoev3_uart_open"
  let ?cps = "[[0x00, 0x40, 0x10], [0xAF, 0x00, 0x40, 0x10], [0xAF, 0x40]] :: u8 list list"
  let ?cp = "[0xFF, 0x40, 0x00, 0x40, 0x10, 0xAF, 0x49, 0x01, 0x00, 0xB7] :: u8 list"
  have h1: "\<not> synced ?p" by code_simp
  have h2: "list_all (\<lambda>cp. no_type_triplet_before ev3_uart_h cp (length cp)) ?cps"
    by code_simp
  have h3: "valid_type_triplet ev3_uart_h ?cp 3 \<and> no_type_triplet_before ev3_uart_h ?cp 3"
    by code_simp
  have h4: "(let q = legoev3_uart_receive_buf ev3_uart_h ?p ?cp
             in synced q \<and> type q = 16 \<and> num_modes q = 2 \<and> write_ptr q = 0)"
    by code_simp
  from unsynced_scanner_keeps_no_bytes
         [OF h1, where K = ev3_uart_h and cps = ?cps and cp = ?cp and j = 3 and t = 16]
       unsynced_scanner_keeps_no_bytes
         [OF h1, where K = ev3_uart_h and cps = ?cps and cp = "[0x40, 0x10]" and j = 3
            and t = 16]
    h1 h2 h3 h4
  show ?thesis
    by (simp add: Let_def)
qed

subsection \<open>C6: reading a value\<close>

text \<open>
  C6 as stated (a value is returned if and only if the session is Running and the index is
  below the data sets of the current mode) fails in both directions.  After a good DATA
  frame with payload 42 and seven frames with a bad checksum the session is no longer
  synced, and \<^verbatim>\<open>value0\<close> still reads 42.  In a Running session whose INFO_FORMAT frame
  carried the format byte 7, \<^verbatim>\<open>value0\<close> returns \<^verbatim>\<open>-ENXIO\<close> although the mode has one
  data set.
\<close>

theorem show_value_after_failure_and_in_running:
  "(let p = receive_all ev3_uart_h (running_session 16)
              (good_data_frame # replicate 7 bad_data_frame);
        q = legoev3_uart_change_bitrate (legoev3_uart_send_ack ev3_uart_h
              (legoev3_uart_receive_buf ev3_uart_h legoev3_uart_open
                 [0x40, 0x10, 0xAF,  0x49, 0x01, 0x00, 0xB7,  0x80, 0x00, 0x54, 0x2B,
                  0x90, 0x80, 0x01, 0x07, 0x05, 0x02, 0xEE,  0x04]))
    in \<not> synced p \<and> \<not> Running p \<and> mode p = 0 \<and> data_sets (mode_info p ! 0) = 1
       \<and> legoev3_uart_show_value (\<lambda>bits dp. 0) p 0 = Inr 42
       \<and> Running q \<and> mode q = 0 \<and> data_sets (mode_info q ! 0) = 1
       \<and> format (mode_info q ! 0) = 7
       \<and> legoev3_uart_show_value (\<lambda>bits dp. 0) q 0 = Inl ENXIO)"
  by code_simp

text \<open>
  C6, amended: \<^verbatim>\<open>legoev3_uart_show_value\<close> does not look at the phase.  It returns an
  integer if and only if the index is below the data sets of the current mode and the
  format of that mode is one of the four known formats, and \<^verbatim>\<open>-ENXIO\<close> otherwise; setting
  or clearing \<^verbatim>\<open>synced\<close> and \<^verbatim>\<open>info_done\<close> does not change the result.  (The driver
  creates the attributes \<^verbatim>\<open>value0\<close> to \<^verbatim>\<open>value7\<close>, whose reads stay inside the 32 bytes
  of \<^verbatim>\<open>raw_data\<close>.)
\<close>

theorem show_value_ignores_the_phase:
  "(let mi = mode_info p ! unat (mode p);
        ready = (int i < uint (data_sets mi)
                 \<and> format mi \<in> {LEGOEV3_UART_DATA_8, LEGOEV3_UART_DATA_16,
                                 LEGOEV3_UART_DATA_32, LEGOEV3_UART_DATA_FLOAT})
    in ((\<exists>v. legoev3_uart_show_value ftoi p i = Inr v) \<longleftrightarrow> ready)
       \<and> (legoev3_uart_show_value ftoi p i = Inl ENXIO \<longleftrightarrow> \<not> ready)
       \<and> legoev3_uart_show_value ftoi (p\<lparr>synced := s, info_done := d\<rparr>) i
           = legoev3_uart_show_value ftoi p i)"
  by (auto simp: legoev3_uart_show_value_def Let_def legoev3_uart_raw_s8_value_def
      legoev3_uart_raw_s16_value_def legoev3_uart_raw_s32_value_def
      legoev3_uart_raw_float_value_def legoev3_uart_get_mode_def)

subsection \<open>C7: what INFO_FORMAT stores\<close>

text \<open>
  C7 (an accepted INFO_FORMAT frame stores format, figures and decimals for every mode,
  mode 0 included, and decrements the current mode when it is not zero).  The driver
  stores figures and decimals inside the branch that decrements the mode.  After TYPE,
  MODES, INFO_NAME for mode 0 and an INFO_FORMAT for mode 0 that carries one data set,
  format 1, 5 figures and 2 decimals, the slot of mode 0 has the data sets and the format
  of the frame but still the default 4 figures and 0 decimals.  The same frames for mode 1
  store all four values.
\<close>

theorem format_for_mode_0_keeps_default_figures_and_decimals:
  "(let p = legoev3_uart_receive_buf ev3_uart_h legoev3_uart_open
              [0x40, 0x10, 0xAF,  0x49, 0x01, 0x00, 0xB7,  0x80, 0x00, 0x54, 0x2B,
               0x90, 0x80, 0x01, 0x01, 0x05, 0x02, 0xE8];
        q = legoev3_uart_receive_buf ev3_uart_h legoev3_uart_open
              [0x40, 0x10, 0xAF,  0x49, 0x01, 0x00, 0xB7,  0x81, 0x00, 0x54, 0x2A,
               0x91, 0x80, 0x01, 0x01, 0x05, 0x02, 0xE9]
    in synced p \<and> write_ptr p = 0 \<and> mode p = 0
       \<and> bit (info_flags p) LEGOEV3_UART_INFO_BIT_INFO_FORMAT
       \<and> data_sets (mode_info p ! 0) = 1 \<and> format (mode_info p ! 0) = 1
       \<and> figures (mode_info p ! 0) = 4 \<and> decimals (mode_info p ! 0) = 0
       \<and> synced q \<and> write_ptr q = 0 \<and> mode q = 0
       \<and> bit (info_flags q) LEGOEV3_UART_INFO_BIT_INFO_FORMAT
       \<and> data_sets (mode_info q ! 1) = 1 \<and> format (mode_info q ! 1) = 1
       \<and> figures (mode_info q ! 1) = 5 \<and> decimals (mode_info q ! 1) = 2)"
  by code_simp

subsection \<open>C8: the length of the payload copied into raw_data\<close>

text \<open>
  C8 (for every DATA frame accepted in Running the payload copied into \<^verbatim>\<open>raw_data\<close> is at
  most 32 bytes long).  The DATA arm copies \<^verbatim>\<open>msg_size - 2\<close> bytes whatever the size, and
  the size exponent of a header goes up to 7.  In a Running session the frame with header
  0xF0, 64 payload bytes 0x11 and the right checksum 0x0F is accepted, and the
  \<^verbatim>\<open>memcpy\<close> is asked for 64 bytes: 32 fill the field and the other 32 are written beyond
  its end.  (A slot of the table is at least as long as its \<^verbatim>\<open>raw_data\<close>, so the 32 bytes
  written beyond slot 0 stay inside the table; the flags of the port are as the record
  shows them.)
\<close>

theorem data_frame_of_64_bytes_overruns_raw_data:
  "(let p = running_session 16;
        f = 0xF0 # replicate 64 0x11 @ [0x0F];
        q = legoev3_uart_receive_buf ev3_uart_h p f
    in Running p \<and> write_ptr p = 0 \<and> overrun p = 0
       \<and> length (raw_data (mode_info p ! 0)) = LEGOEV3_UART_SENSOR_DATA_SIZE
       \<and> length f = legoev3_uart_msg_size (hd f) \<and> checksum f 65 = last f
       \<and> legoev3_uart_msg_size 0xF0 - 2 = 64
       \<and> LEGOEV3_UART_SENSOR_DATA_SIZE < legoev3_uart_msg_size 0xF0 - 2
       \<and> Running q \<and> num_data_err q = 0 \<and> data_rec q \<and> write_ptr q = 0
       \<and> raw_data (mode_info q ! 0) = replicate 32 0x11
       \<and> overrun q = 32
       \<and> memcpy_overrun (raw_data (mode_info p ! 0)) (legoev3_uart_msg_size (hd f) - 2) = 32)"
  by code_simp

subsection \<open>C9: the header round trip\<close>

text \<open>
  Where it holds: for the payload sizes 1, 2, 4, 8 and 16 the header decodes to the type,
  the size and the command, and the message size of a CMD header is the size plus 2,
  whether \<^verbatim>\<open>sizeof(unsigned long)\<close> is 4 or 8; for size 32 it does so where it is 8.
\<close>

lemma set_msg_hdr_round_trip_up_to_16:
  "\<forall>n \<in> set [4, 8].
   \<forall>t \<in> set [LEGOEV3_UART_MSG_TYPE_SYS, LEGOEV3_UART_MSG_TYPE_CMD,
               LEGOEV3_UART_MSG_TYPE_INFO, LEGOEV3_UART_MSG_TYPE_DATA].
   \<forall>s \<in> set [1, 2, 4, 8, 16].
   \<forall>c \<in> set [0, 1, 2, 3, 4, 5, 6, 7].
     decode_header (legoev3_uart_set_msg_hdr n t s c) = (t, s, c)
     \<and> legoev3_uart_msg_size (legoev3_uart_set_msg_hdr n LEGOEV3_UART_MSG_TYPE_CMD s c) = s + 2"
  by code_simp

lemma set_msg_hdr_round_trip_32_with_8_byte_long:
  "\<forall>t \<in> set [LEGOEV3_UART_MSG_TYPE_SYS, LEGOEV3_UART_MSG_TYPE_CMD,
               LEGOEV3_UART_MSG_TYPE_INFO, LEGOEV3_UART_MSG_TYPE_DATA].
   \<forall>c \<in> set [0, 1, 2, 3, 4, 5, 6, 7].
     decode_header (legoev3_uart_set_msg_hdr 8 t 32 c) = (t, 32, c)
     \<and> legoev3_uart_msg_size (legoev3_uart_set_msg_hdr 8 LEGOEV3_UART_MSG_TYPE_CMD 32 c) = 34"
  by code_simp

text \<open>
  C9 (the header built for message type t, payload size s and command c decodes to
  (t, s, c), and the message size of a CMD header is s + 2, for every power of two s from
  1 to 32).  On the EV3 \<^verbatim>\<open>sizeof(unsigned long)\<close> is 4, so \<^verbatim>\<open>find_last_bit\<close> searches the
  bits 0 to 3 only.  For size 32 it finds no bit and returns 4: the header of a 32-byte
  WRITE command is 0x64, the header of a 16-byte one; it decodes to a payload of 16 bytes
  and a message of 18 bytes, not 34.
\<close>

theorem set_msg_hdr_size_32_encodes_16:
  "legoev3_uart_set_msg_hdr 4 LEGOEV3_UART_MSG_TYPE_CMD 32 LEGOEV3_UART_CMD_WRITE = 0x64
   \<and> decode_header 0x64 = (LEGOEV3_UART_MSG_TYPE_CMD, 16, LEGOEV3_UART_CMD_WRITE)
   \<and> legoev3_uart_msg_size 0x64 = 18
   \<and> legoev3_uart_set_msg_hdr 4 LEGOEV3_UART_MSG_TYPE_CMD 16 LEGOEV3_UART_CMD_WRITE = 0x64"
  by code_simp

subsection \<open>C10: SYNC followed by its checksum\<close>

text \<open>
  What becomes of the 0xFF: it stays.  The loop takes the message size from the first
  byte before it looks for a leading 0xFF, and the size of header 0xFF is 130, so with one
  byte buffered the loop ends.  The byte then sits in front of whatever arrives next: a
  MODES frame delivered after 00 FF is not handled.
\<close>

lemma checksum_after_sync_stays_in_the_buffer:
  "(let p = legoev3_uart_receive_buf ev3_uart_h legoev3_uart_open [0x40, 0x21, 0x9E];
        q = legoev3_uart_receive_buf ev3_uart_h p [0x00, 0xFF];
        r = legoev3_uart_receive_buf ev3_uart_h q [0x49, 0x01, 0x00, 0xB7];
        r' = legoev3_uart_receive_buf ev3_uart_h p [0x49, 0x01, 0x00, 0xB7]
    in legoev3_uart_msg_size 0xFF = 130
       \<and> synced q \<and> write_ptr q = 1 \<and> buffer q ! 0 = 0xFF
       \<and> synced r \<and> write_ptr r = 5 \<and> buffer r ! 0 = 0xFF \<and> num_modes r = 1
       \<and> synced r' \<and> write_ptr r' = 0 \<and> num_modes r' = 2)"
  by code_simp

text \<open>
  C10 (a SYNC byte 0x00 followed by 0xFF at the start of the buffer is consumed as one
  message of two bytes, in one pass of the framer).  The SYNC arm extends the message only
  if \<^verbatim>\<open>msg_size > 1\<close>, and the size of a SYS message is 1, so the arm never extends it.
  With 00 FF in the buffer of a synced port one pass removes the 0x00 alone, as a message
  of one byte, and leaves 0xFF at the start of the buffer.
\<close>

theorem sync_with_checksum_pass_removes_the_sync_alone:
  "(let p = legoev3_uart_receive_buf ev3_uart_h legoev3_uart_open [0x40, 0x21, 0x9E]
    in synced p \<and> write_ptr p = 0
       \<and> (case append_bytes p [0x00, 0xFF] of
             Inl q \<Rightarrow> False
           | Inr q \<Rightarrow>
               write_ptr q = 2 \<and> take 2 (buffer q) = [0x00, 0xFF]
               \<and> (case process_msg ev3_uart_h q of
                     Inl r \<Rightarrow> False
                   | Inr r \<Rightarrow> write_ptr r = 1 \<and> buffer r ! 0 = 0xFF \<and> synced r)))"
  by code_simp

end
